theory Spec2Isabelle
  imports Main
begin

section \<open>The instruction set\<close>

text \<open>
  \<^verbatim>\<open>ReflectionOp\<close> is a numeric TypeScript enum, numbered from 0 in the order of its
  members. The arrays of instructions, \<^verbatim>\<open>ops: ReflectionOp[]\<close>, hold the opcodes and, after
  some of them, an address into the literal stack, as plain numbers. At run time such an
  array holds what is pushed into it: besides numbers, the extractor can push a function
  that the object \<^verbatim>\<open>knownClasses\<close> inherits from \<^verbatim>\<open>Object.prototype\<close>, named here by its key.
\<close>

datatype OpValue = NumberValue nat | FunctionValue string

definition ReflectionOp_end :: OpValue where "ReflectionOp_end = NumberValue 0"
definition ReflectionOp_any :: OpValue where "ReflectionOp_any = NumberValue 1"
definition ReflectionOp_void :: OpValue where "ReflectionOp_void = NumberValue 2"
definition ReflectionOp_string :: OpValue where "ReflectionOp_string = NumberValue 3"
definition ReflectionOp_number :: OpValue where "ReflectionOp_number = NumberValue 4"
definition ReflectionOp_boolean :: OpValue where "ReflectionOp_boolean = NumberValue 5"
definition ReflectionOp_bigint :: OpValue where "ReflectionOp_bigint = NumberValue 6"
definition ReflectionOp_null :: OpValue where "ReflectionOp_null = NumberValue 7"
definition ReflectionOp_undefined :: OpValue where "ReflectionOp_undefined = NumberValue 8"
definition ReflectionOp_literal :: OpValue where "ReflectionOp_literal = NumberValue 9"
definition ReflectionOp_function :: OpValue where "ReflectionOp_function = NumberValue 10"
definition ReflectionOp_method :: OpValue where "ReflectionOp_method = NumberValue 11"
definition ReflectionOp_methodSignature :: OpValue where "ReflectionOp_methodSignature = NumberValue 12"
definition ReflectionOp_property :: OpValue where "ReflectionOp_property = NumberValue 13"
definition ReflectionOp_propertySignature :: OpValue where "ReflectionOp_propertySignature = NumberValue 14"
definition ReflectionOp_constructor :: OpValue where "ReflectionOp_constructor = NumberValue 15"
definition ReflectionOp_class :: OpValue where "ReflectionOp_class = NumberValue 16"
definition ReflectionOp_optional :: OpValue where "ReflectionOp_optional = NumberValue 17"
definition ReflectionOp_private :: OpValue where "ReflectionOp_private = NumberValue 18"
definition ReflectionOp_protected :: OpValue where "ReflectionOp_protected = NumberValue 19"
definition ReflectionOp_abstract :: OpValue where "ReflectionOp_abstract = NumberValue 20"
definition ReflectionOp_enum :: OpValue where "ReflectionOp_enum = NumberValue 21"
definition ReflectionOp_set :: OpValue where "ReflectionOp_set = NumberValue 22"
definition ReflectionOp_map :: OpValue where "ReflectionOp_map = NumberValue 23"
definition ReflectionOp_constEnum :: OpValue where "ReflectionOp_constEnum = NumberValue 24"
definition ReflectionOp_array :: OpValue where "ReflectionOp_array = NumberValue 25"
definition ReflectionOp_union :: OpValue where "ReflectionOp_union = NumberValue 26"
definition ReflectionOp_intersection :: OpValue where "ReflectionOp_intersection = NumberValue 27"
definition ReflectionOp_indexSignature :: OpValue where "ReflectionOp_indexSignature = NumberValue 28"
definition ReflectionOp_objectLiteral :: OpValue where "ReflectionOp_objectLiteral = NumberValue 29"
definition ReflectionOp_mappedType :: OpValue where "ReflectionOp_mappedType = NumberValue 30"
definition ReflectionOp_frame :: OpValue where "ReflectionOp_frame = NumberValue 31"
definition ReflectionOp_date :: OpValue where "ReflectionOp_date = NumberValue 32"
definition ReflectionOp_int8Array :: OpValue where "ReflectionOp_int8Array = NumberValue 33"
definition ReflectionOp_uint8ClampedArray :: OpValue where "ReflectionOp_uint8ClampedArray = NumberValue 34"
definition ReflectionOp_uint8Array :: OpValue where "ReflectionOp_uint8Array = NumberValue 35"
definition ReflectionOp_int16Array :: OpValue where "ReflectionOp_int16Array = NumberValue 36"
definition ReflectionOp_uint16Array :: OpValue where "ReflectionOp_uint16Array = NumberValue 37"
definition ReflectionOp_int32Array :: OpValue where "ReflectionOp_int32Array = NumberValue 38"
definition ReflectionOp_uint32Array :: OpValue where "ReflectionOp_uint32Array = NumberValue 39"
definition ReflectionOp_float32Array :: OpValue where "ReflectionOp_float32Array = NumberValue 40"
definition ReflectionOp_float64Array :: OpValue where "ReflectionOp_float64Array = NumberValue 41"
definition ReflectionOp_bigInt64Array :: OpValue where "ReflectionOp_bigInt64Array = NumberValue 42"
definition ReflectionOp_arrayBuffer :: OpValue where "ReflectionOp_arrayBuffer = NumberValue 43"
definition ReflectionOp_promise :: OpValue where "ReflectionOp_promise = NumberValue 44"
definition ReflectionOp_push :: OpValue where "ReflectionOp_push = NumberValue 45"
definition ReflectionOp_query :: OpValue where "ReflectionOp_query = NumberValue 46"
definition ReflectionOp_condition :: OpValue where "ReflectionOp_condition = NumberValue 47"
definition ReflectionOp_extends :: OpValue where "ReflectionOp_extends = NumberValue 48"

definition packSizeByte :: nat where "packSizeByte = 6"

definition packSize :: nat where "packSize = 2 ^ packSizeByte"

section \<open>The literal stack and the pack structure\<close>

text \<open>
  \<^verbatim>\<open>StackEntry = Expression | (() => ClassType | Object) | string | number | boolean\<close>.
  Strings, numbers and booleans are values. An \<^verbatim>\<open>Expression\<close> is an object of the syntax
  tree, and an arrow function is an object the node factory creates: JavaScript compares
  objects by identity, so each carries the number that identifies the object, and beside
  it its source text. Numbers are the integers among the doubles.
\<close>

datatype StackEntry =
    StringEntry string
  | NumberEntry int
  | BooleanEntry bool
  | NodeEntry nat string
  | ArrowEntry nat string

record PackStruct =
  ops :: "OpValue list"
  stack :: "StackEntry list"

text \<open>\<^verbatim>\<open>Packed = string | [...StackEntry[], string]\<close>\<close>

datatype Packed = PackedString string | PackedArray "StackEntry list"

text \<open>The argument of \<^verbatim>\<open>pack\<close>: \<^verbatim>\<open>PackStruct | ReflectionOp[]\<close>.\<close>

datatype PackInput = OfStruct PackStruct | OfOps "OpValue list"

section \<open>The codec\<close>

text \<open>
  The errors that the code raises: \<^verbatim>\<open>RangeError\<close> when the call stack is exhausted,
  \<^verbatim>\<open>TypeError\<close> when a property of \<^verbatim>\<open>undefined\<close> is read, \<^verbatim>\<open>SyntaxError\<close> when \<^verbatim>\<open>BigInt\<close> is
  given a value that is no integer.
\<close>

datatype error = RangeError | TypeError | SyntaxError

text \<open>\<^verbatim>\<open>BigInt.prototype.toString(36)\<close>: the digits 0-9 and a-z, most significant first.\<close>

definition digit36 :: "nat \<Rightarrow> char" where
  "digit36 d = ''0123456789abcdefghijklmnopqrstuvwxyz'' ! d"

function toString36 :: "nat \<Rightarrow> string" where
  "toString36 n = (if n < 36 then [digit36 n] else toString36 (n div 36) @ [digit36 (n mod 36)])"
  by pat_completeness auto
termination
  by (relation "measure id") auto

text \<open>
  The loop of \<^verbatim>\<open>pack\<close>:
  \<^verbatim>\<open>for (let i = 0; i < ops.length; i++) packedOp += BigInt(ops[i]) * (BigInt(packSize) ** BigInt(i))\<close>.
  \<^verbatim>\<open>BigInt\<close> of a function raises \<^verbatim>\<open>SyntaxError\<close>.
\<close>

function packLoop :: "OpValue list \<Rightarrow> nat \<Rightarrow> nat \<Rightarrow> error + nat" where
  "packLoop os i packedOp =
     (if i < length os then
        (case os ! i of
           NumberValue n \<Rightarrow> packLoop os (i + 1) (packedOp + n * packSize ^ i)
         | FunctionValue f \<Rightarrow> Inl SyntaxError)
      else Inr packedOp)"
  by pat_completeness auto
termination
  by (relation "measure (\<lambda>(os, i, packedOp). length os - i)") auto

definition pack :: "PackInput \<Rightarrow> error + Packed" where
  "pack packOrOps =
     (let os = (case packOrOps of OfOps a \<Rightarrow> a | OfStruct p \<Rightarrow> ops p) in
      case packLoop os 0 0 of
        Inl e \<Rightarrow> Inl e
      | Inr packedOp \<Rightarrow>
          (let opNumbers = toString36 packedOp in
           case packOrOps of
             OfStruct p \<Rightarrow>
               if stack p \<noteq> [] then Inr (PackedArray (stack p @ [StringEntry opNumbers]))
               else Inr (PackedString opNumbers)
           | OfOps a \<Rightarrow> Inr (PackedString opNumbers)))"

text \<open>
  \<^verbatim>\<open>parseInt(s, 36)\<close>: leading white space is skipped, one sign is read, then the longest
  run of digits of radix 36 (letters in either case); with no digit the result is NaN,
  which is \<open>None\<close> here. A string is a list of 8-bit characters, so the white space is
  the ASCII one. The result is a double: the integer that the digits denote while that is
  below \<open>2 ^ 53\<close>, which covers every run of up to ten digits, and above it a double near
  that integer, which for radix 36 the language leaves to the implementation; here it is
  the nearest double, with 53 significant bits and ties to even (\<open>toDouble\<close>).
\<close>

fun excessBits :: "nat \<Rightarrow> nat" where
  "excessBits n = (if n < 2 ^ 53 then 0 else Suc (excessBits (n div 2)))"

definition toDouble :: "nat \<Rightarrow> nat" where
  "toDouble n =
     (let k = excessBits n;
          q = n div 2 ^ k;
          r = n mod 2 ^ k
      in (if 2 ^ k < 2 * r \<or> (2 * r = 2 ^ k \<and> odd q) then q + 1 else q) * 2 ^ k)"

definition isWhiteSpace :: "char \<Rightarrow> bool" where
  "isWhiteSpace c = (of_char c \<in> {9, 10, 11, 12, 13, 32 :: nat})"

definition digitValue36 :: "char \<Rightarrow> nat option" where
  "digitValue36 c =
     (let n = (of_char c :: nat) in
      if 48 \<le> n \<and> n \<le> 57 then Some (n - 48)
      else if 97 \<le> n \<and> n \<le> 122 then Some (n - 87)
      else if 65 \<le> n \<and> n \<le> 90 then Some (n - 55)
      else None)"

definition parseInt36 :: "string \<Rightarrow> int option" where
  "parseInt36 s =
     (let t = dropWhile isWhiteSpace s;
          sgn = (if t \<noteq> [] \<and> hd t = CHR ''-'' then - 1 else 1 :: int);
          u = (if t \<noteq> [] \<and> (hd t = CHR ''-'' \<or> hd t = CHR ''+'') then tl t else t);
          z = takeWhile (\<lambda>c. digitValue36 c \<noteq> None) u
      in if z = [] then None
         else Some (sgn * int (toDouble (foldl (\<lambda>acc c. acc * 36 + the (digitValue36 c)) 0 z))))"

text \<open>
  \<^verbatim>\<open>(ops / 2 ** (packSizeByte * i)) & (packSize - 1)\<close>. The operator \<^verbatim>\<open>&\<close> turns NaN into 0,
  truncates the quotient towards zero and keeps the low six bits of its two's complement.
\<close>

definition slot :: "int option \<Rightarrow> nat \<Rightarrow> nat" where
  "slot v i =
     (case v of
        None \<Rightarrow> 0
      | Some n \<Rightarrow> nat ((sgn n * (\<bar>n\<bar> div 2 ^ (packSizeByte * i))) mod int packSize))"

text \<open>The inner loop of \<^verbatim>\<open>unpackOps\<close>, \<^verbatim>\<open>for (let i = 0; ; i++)\<close>: the ops it pushes.\<close>

function unpackSlots :: "int option \<Rightarrow> nat \<Rightarrow> nat list" where
  "unpackSlots v i = (let op = slot v i in if op = 0 then [] else op # unpackSlots v (i + 1))"
  by pat_completeness auto
termination
proof (relation "measure (\<lambda>(v, i). (case v of None \<Rightarrow> 0 | Some n \<Rightarrow> nat \<bar>n\<bar>) - i)")
  show "wf (measure (\<lambda>(v, i). (case v of None \<Rightarrow> 0 | Some n \<Rightarrow> nat \<bar>n\<bar>) - i))"
    by simp
next
  fix v :: "int option" and i :: nat and x :: nat
  assume x: "x = slot v i" and nz: "x \<noteq> 0"
  from x nz obtain n where v: "v = Some n"
    by (cases v) (auto simp: slot_def)
  have "\<bar>n\<bar> div 2 ^ (packSizeByte * i) \<noteq> 0"
    using x nz v by (auto simp: slot_def)
  then have "(2::int) ^ (packSizeByte * i) \<le> \<bar>n\<bar>"
    by (metis abs_ge_zero div_pos_pos_trivial not_le)
  moreover have "int i < 2 ^ i"
    using less_exp [of i] by (metis of_nat_less_iff of_nat_numeral of_nat_power)
  moreover have "(2::int) ^ i \<le> 2 ^ (packSizeByte * i)"
    by (rule power_increasing) (auto simp: packSizeByte_def)
  ultimately have "int i < \<bar>n\<bar>"
    by linarith
  then show "((v, i + 1), (v, i)) \<in> measure (\<lambda>(v, i). (case v of None \<Rightarrow> 0 | Some n \<Rightarrow> nat \<bar>n\<bar>) - i)"
    using v by simp
qed

text \<open>
  \<^verbatim>\<open>unpackOps\<close>: while the string is not empty, its last twelve characters are cut off,
  and then the last twelve characters of what remains are parsed.
\<close>

function unpackOps :: "OpValue list \<Rightarrow> string \<Rightarrow> OpValue list" where
  "unpackOps decodedOps encodedOPs =
     (if encodedOPs \<noteq> [] then
        (let encodedOPs' = take (length encodedOPs - 12) encodedOPs;
             v = parseInt36 (drop (length encodedOPs' - 12) encodedOPs')
         in unpackOps (decodedOps @ map NumberValue (unpackSlots v 0)) encodedOPs')
      else decodedOps)"
  by pat_completeness auto
termination
  by (relation "measure (\<lambda>(decodedOps, encodedOPs). length encodedOPs)") auto

text \<open>
  \<^verbatim>\<open>unpack\<close>. Of an array it reads the last element, \<^verbatim>\<open>undefined\<close> when the array is
  empty, and compares it with the text \<^verbatim>\<open>'string'\<close> by \<^verbatim>\<open>!==\<close>.
\<close>

definition unpack :: "Packed \<Rightarrow> PackStruct" where
  "unpack p =
     (case p of
        PackedString s \<Rightarrow> \<lparr>ops = unpackOps [] s, stack = []\<rparr>
      | PackedArray xs \<Rightarrow>
          (let encodedOPs = (if xs = [] then None else Some (last xs)) in
           if encodedOPs \<noteq> Some (StringEntry ''string'') then \<lparr>ops = [], stack = []\<rparr>
           else \<lparr>ops = unpackOps [] ''string'',
                 stack = (if length xs > 1 then butlast xs else [])\<rparr>))"

section \<open>The syntax tree\<close>

datatype SyntaxKind =
    StringKeyword | NumberKeyword | BooleanKeyword | BigIntKeyword | VoidKeyword
  | NullKeyword | UndefinedKeyword | ExtendsKeyword | ImplementsKeyword
  | PrivateKeyword | ProtectedKeyword | AbstractKeyword | StaticKeyword | OtherKeyword

datatype PropertyName =
    IdentifierName string
  | StringLiteralName string
  | NumericLiteralName string
  | ComputedPropertyName

datatype EntityName = Identifier nat string | QualifiedName EntityName string

datatype HeritageExpression = IdentifierExpression nat string | OtherHeritageExpression

datatype HeritageClause = HeritageClause SyntaxKind "HeritageExpression list"

datatype Literal = NullLiteral | LiteralExpression nat string

datatype ModuleSpecifier = StringLiteralSpecifier string | OtherSpecifier

datatype ExportSpecifier = ExportSpecifier string "string option"

datatype ExportClause = NamedExports "ExportSpecifier list" | NamespaceExport

datatype ImportOrExport =
    ImportDeclaration ModuleSpecifier
  | ExportDeclaration "ExportClause option" "ModuleSpecifier option"

datatype Expression =
    StringLiteral string
  | NumericLiteral int
  | ArrayLiteralExpression "Expression list"
  | ObjectLiteralExpression "(PropertyName \<times> Expression) list"
  | EntryExpression StackEntry
  | OtherExpression

datatype Node =
    ParenthesizedType Node
  | KeywordNode SyntaxKind
  | InterfaceDeclaration "Node list" "HeritageClause list option"
  | TypeLiteral "Node list"
  | TypeReference EntityName "Node list option"
  | ArrayType Node
  | PropertySignature PropertyName "Node option"
  | ConstructorDeclaration "Node option list" "Node option"
  | PropertyDeclaration "SyntaxKind list" PropertyName bool "Node option" "Expression option"
  | MethodDeclaration "SyntaxKind list" PropertyName "Node option list" "Node option"
  | ArrowFunction "Node option list" "Node option"
  | FunctionExpression "Node option list" "Node option"
  | FunctionDeclaration "Node option list" "Node option"
  | LiteralType Literal
  | UnionType "Node list"
  | IndexSignature "Node option list" "Node option"
  | TypeAliasDeclaration Node
  | MappedType
  | EnumDeclaration
  | ClassDeclaration "Node list"
  | ImportSpecifier nat ImportOrExport
  | OtherNode "PropertyName option"

section \<open>The host compiler and the transformer\<close>

record Symbol =
  declarations :: "Node list option"
  declaredTypeDeclaration :: "Node option"

datatype Statement =
    ExportDeclarationStatement "ExportClause option" "ModuleSpecifier option"
  | OtherStatement

record SourceFile =
  locals :: "(string \<rightharpoonup> Symbol) option"
  statements :: "Statement list"

record JSDocTag =
  tagName :: string
  comment :: "string option"

datatype ModeArgument = ModeString string | ModeBoolean bool

datatype TsConfig = NoTsConfig | InvalidTsConfig | TsConfig "ModeArgument option"

record ReflectionTransformer =
  reflectionMode :: "string option"
  getSymbolAtLocation :: "nat \<Rightarrow> string \<Rightarrow> Symbol option"
  getExternalModuleFileFromDeclaration :: "ImportOrExport \<Rightarrow> SourceFile option"
  getJSDocTags :: "Node \<Rightarrow> JSDocTag list"
  tsconfigs :: "TsConfig list"

record Resolved =
  resolvedDeclaration :: Node
  importSpecifier :: "Node option"

text \<open>
  The extractor writes into the arrays \<^verbatim>\<open>ops\<close> and \<^verbatim>\<open>stack\<close> that it is given. Beside them the
  state holds the number of arrow functions that the node factory has created so far,
  which gives each new one its identity, and the import specifiers whose flags were set to
  \<^verbatim>\<open>Synthesized\<close>.
\<close>

record ExtractState = PackStruct +
  created :: nat
  synthesized :: "nat list"

definition strictEquals :: "StackEntry \<Rightarrow> StackEntry \<Rightarrow> bool" where
  "strictEquals a b =
     (case (a, b) of
        (StringEntry x, StringEntry y) \<Rightarrow> x = y
      | (NumberEntry x, NumberEntry y) \<Rightarrow> x = y
      | (BooleanEntry x, BooleanEntry y) \<Rightarrow> x = y
      | (NodeEntry i s, NodeEntry j t) \<Rightarrow> i = j
      | (ArrowEntry i s, ArrowEntry j t) \<Rightarrow> i = j
      | _ \<Rightarrow> False)"

fun indexOf :: "StackEntry list \<Rightarrow> StackEntry \<Rightarrow> nat option" where
  "indexOf [] entry = None"
| "indexOf (x # xs) entry =
     (if strictEquals x entry then Some 0 else map_option Suc (indexOf xs entry))"

definition findOrAddStackEntry :: "StackEntry list \<Rightarrow> StackEntry \<Rightarrow> StackEntry list \<times> nat" where
  "findOrAddStackEntry stk entry =
     (case indexOf stk entry of
        Some index \<Rightarrow> (stk, index)
      | None \<Rightarrow> (stk @ [entry], length (stk @ [entry]) - 1))"

text \<open>
  Modelled from the spec: \<^verbatim>\<open>getNameAsString\<close> and \<^verbatim>\<open>hasModifier\<close> are imported from the module
  \<^verbatim>\<open>./reflection-ast\<close>, which is not part of the sources at hand. The specification speaks of
  the property name string, of members deduplicated by declared name, and of a keyword
  present as modifier: the name is the text of an identifier, a string literal or a
  numeric literal and empty otherwise, and a modifier is present when its kind is among
  the modifiers of the node.
\<close>

definition getNameAsString :: "PropertyName option \<Rightarrow> string" where
  "getNameAsString n =
     (case n of
        None \<Rightarrow> ''''
      | Some (IdentifierName s) \<Rightarrow> s
      | Some (StringLiteralName s) \<Rightarrow> s
      | Some (NumericLiteralName s) \<Rightarrow> s
      | Some ComputedPropertyName \<Rightarrow> '''')"

definition hasModifier :: "SyntaxKind list \<Rightarrow> SyntaxKind \<Rightarrow> bool" where
  "hasModifier modifiers k = (k \<in> set modifiers)"

text \<open>
  \<^verbatim>\<open>this.knownClasses[name]\<close> is a lookup in a plain object: beside the sixteen keys of
  the table it finds what the object inherits from \<^verbatim>\<open>Object.prototype\<close>, a function under
  each of the keys below. (The text of an identifier is its \<^verbatim>\<open>escapedText\<close>, in which a
  name that starts with two underscores has a third one, so the inherited keys of that
  form are never looked up.)
\<close>

definition objectPrototypeKeys :: "string list" where
  "objectPrototypeKeys =
     [''constructor'', ''hasOwnProperty'', ''isPrototypeOf'', ''propertyIsEnumerable'',
      ''toLocaleString'', ''toString'', ''valueOf'']"

definition knownClasses :: "string \<Rightarrow> OpValue option" where
  "knownClasses name =
     (case map_of
        [(''Int8Array'', ReflectionOp_int8Array),
         (''Uint8Array'', ReflectionOp_uint8Array),
         (''Uint8ClampedArray'', ReflectionOp_uint8ClampedArray),
         (''Int16Array'', ReflectionOp_int16Array),
         (''Uint16Array'', ReflectionOp_uint16Array),
         (''Int32Array'', ReflectionOp_int32Array),
         (''Uint32Array'', ReflectionOp_uint32Array),
         (''Float32Array'', ReflectionOp_float32Array),
         (''Float64Array'', ReflectionOp_float64Array),
         (''ArrayBuffer'', ReflectionOp_arrayBuffer),
         (''BigInt64Array'', ReflectionOp_bigInt64Array),
         (''Date'', ReflectionOp_date),
         (''String'', ReflectionOp_string),
         (''Number'', ReflectionOp_number),
         (''BigInt'', ReflectionOp_bigint),
         (''Boolean'', ReflectionOp_boolean)] name of
        Some op \<Rightarrow> Some op
      | None \<Rightarrow>
          if name \<in> set objectPrototypeKeys then Some (FunctionValue name) else None)"

definition findDeclarationInFile :: "SourceFile \<Rightarrow> string \<Rightarrow> Node option" where
  "findDeclarationInFile sourceFile declarationName =
     (case locals sourceFile of
        None \<Rightarrow> None
      | Some table \<Rightarrow>
          (case table declarationName of
             None \<Rightarrow> None
           | Some declarationSymbol \<Rightarrow>
               (case declarations declarationSymbol of
                  Some (d # ds) \<Rightarrow> Some d
                | _ \<Rightarrow> None)))"

definition moduleSpecifier :: "ImportOrExport \<Rightarrow> ModuleSpecifier option" where
  "moduleSpecifier importOrExport =
     (case importOrExport of
        ImportDeclaration m \<Rightarrow> Some m
      | ExportDeclaration clause m \<Rightarrow> m)"

text \<open>
  The functions that call themselves along the syntax tree take the depth that is left on
  the call stack. At depth 0 a call raises \<^verbatim>\<open>RangeError\<close>, as the engine does when the stack
  is exhausted: modules that export from each other in a cycle, or a type alias that names
  itself, make the source recurse without end.
\<close>

fun resolveImportSpecifier :: "nat \<Rightarrow> ReflectionTransformer \<Rightarrow> string \<Rightarrow> ImportOrExport \<Rightarrow> error + Node option"
  and resolveInStatements :: "nat \<Rightarrow> ReflectionTransformer \<Rightarrow> string \<Rightarrow> Statement list \<Rightarrow> error + Node option"
  and resolveInElements :: "nat \<Rightarrow> ReflectionTransformer \<Rightarrow> string \<Rightarrow> ImportOrExport \<Rightarrow> ExportSpecifier list \<Rightarrow> error + Node option"
where
  "resolveImportSpecifier 0 tr declarationName importOrExport = Inl RangeError"
| "resolveImportSpecifier (Suc depth) tr declarationName importOrExport =
     (case moduleSpecifier importOrExport of
        None \<Rightarrow> Inr None
      | Some OtherSpecifier \<Rightarrow> Inr None
      | Some (StringLiteralSpecifier text) \<Rightarrow>
          (case getExternalModuleFileFromDeclaration tr importOrExport of
             None \<Rightarrow> Inr None
           | Some source \<Rightarrow>
               (case findDeclarationInFile source declarationName of
                  Some d \<Rightarrow> Inr (Some d)
                | None \<Rightarrow> resolveInStatements depth tr declarationName (statements source))))"
| "resolveInStatements depth tr declarationName [] = Inr None"
| "resolveInStatements depth tr declarationName (OtherStatement # rest) =
     resolveInStatements depth tr declarationName rest"
| "resolveInStatements depth tr declarationName (ExportDeclarationStatement clause m # rest) =
     (case clause of
        Some (NamedExports elements) \<Rightarrow>
          (case resolveInElements depth tr declarationName (ExportDeclaration clause m) elements of
             Inl e \<Rightarrow> Inl e
           | Inr (Some found) \<Rightarrow> Inr (Some found)
           | Inr None \<Rightarrow> resolveInStatements depth tr declarationName rest)
      | Some NamespaceExport \<Rightarrow> resolveInStatements depth tr declarationName rest
      | None \<Rightarrow>
          (case resolveImportSpecifier depth tr declarationName (ExportDeclaration clause m) of
             Inl e \<Rightarrow> Inl e
           | Inr (Some found) \<Rightarrow> Inr (Some found)
           | Inr None \<Rightarrow> resolveInStatements depth tr declarationName rest))"
| "resolveInElements depth tr declarationName statement [] = Inr None"
| "resolveInElements depth tr declarationName statement (ExportSpecifier name propertyName # rest) =
     (if name = declarationName then
        (case resolveImportSpecifier depth tr
                (case propertyName of Some p \<Rightarrow> p | None \<Rightarrow> declarationName) statement of
           Inl e \<Rightarrow> Inl e
         | Inr (Some found) \<Rightarrow> Inr (Some found)
         | Inr None \<Rightarrow> resolveInElements depth tr declarationName statement rest)
      else resolveInElements depth tr declarationName statement rest)"

section \<open>The type extractor\<close>

definition firstDeclaration :: "Symbol \<Rightarrow> Node option" where
  "firstDeclaration symbol =
     (case declarations symbol of Some (d # ds) \<Rightarrow> Some d | _ \<Rightarrow> None)"

definition isImportSpecifier :: "Node \<Rightarrow> bool" where
  "isImportSpecifier n = (case n of ImportSpecifier i parent \<Rightarrow> True | _ \<Rightarrow> False)"

definition isInterfaceDeclaration :: "Node \<Rightarrow> bool" where
  "isInterfaceDeclaration n = (case n of InterfaceDeclaration ms hs \<Rightarrow> True | _ \<Rightarrow> False)"

definition isMappedTypeNode :: "Node \<Rightarrow> bool" where
  "isMappedTypeNode n = (case n of MappedType \<Rightarrow> True | _ \<Rightarrow> False)"

definition isEnumDeclaration :: "Node \<Rightarrow> bool" where
  "isEnumDeclaration n = (case n of EnumDeclaration \<Rightarrow> True | _ \<Rightarrow> False)"

definition isClassDeclaration :: "Node \<Rightarrow> bool" where
  "isClassDeclaration n = (case n of ClassDeclaration ms \<Rightarrow> True | _ \<Rightarrow> False)"

text \<open>\<^verbatim>\<open>declaration.type\<close> under \<^verbatim>\<open>isTypeAliasDeclaration(declaration)\<close>.\<close>

definition typeOfTypeAlias :: "Node \<Rightarrow> Node option" where
  "typeOfTypeAlias n = (case n of TypeAliasDeclaration t \<Rightarrow> Some t | _ \<Rightarrow> None)"

definition resolveDeclaration :: "nat \<Rightarrow> ReflectionTransformer \<Rightarrow> EntityName \<Rightarrow> error + Resolved option" where
  "resolveDeclaration depth tr e =
     (case e of
        QualifiedName left right \<Rightarrow> Inr None
      | Identifier i text \<Rightarrow>
          (let symbol = getSymbolAtLocation tr i text;
               declaration0 = (case symbol of Some s \<Rightarrow> firstDeclaration s | None \<Rightarrow> None);
               specifier = (case declaration0 of
                              Some d \<Rightarrow> if isImportSpecifier d then Some d else None
                            | None \<Rightarrow> None);
               declaration1 =
                 (case symbol of
                    None \<Rightarrow> Inr declaration0
                  | Some s \<Rightarrow>
                      (case declaration0 of
                         None \<Rightarrow>
                           (case declaredTypeDeclaration s of
                              Some d \<Rightarrow> Inr (Some d)
                            | None \<Rightarrow> Inr None)
                       | Some (ImportSpecifier k parent) \<Rightarrow>
                           (case declaredTypeDeclaration s of
                              Some d \<Rightarrow> Inr (Some d)
                            | None \<Rightarrow> resolveImportSpecifier depth tr ''Message'' parent)
                       | Some d0 \<Rightarrow> Inr (Some d0)))
           in case declaration1 of
                Inl err \<Rightarrow> Inl err
              | Inr None \<Rightarrow> Inr None
              | Inr (Some d) \<Rightarrow> Inr (Some \<lparr>resolvedDeclaration = d, importSpecifier = specifier\<rparr>)))"

definition pushOps :: "ExtractState \<Rightarrow> OpValue list \<Rightarrow> ExtractState" where
  "pushOps st xs = st\<lparr>ops := ops st @ xs\<rparr>"

definition pushOpWithEntry :: "ExtractState \<Rightarrow> OpValue \<Rightarrow> StackEntry \<Rightarrow> ExtractState" where
  "pushOpWithEntry st op entry =
     (case findOrAddStackEntry (stack st) entry of
        (stk, index) \<Rightarrow> st\<lparr>ops := ops st @ [op, NumberValue index], stack := stk\<rparr>)"

fun entityNameText :: "EntityName \<Rightarrow> string" where
  "entityNameText (Identifier i text) = text"
| "entityNameText (QualifiedName left right) = entityNameText left @ ''.'' @ right"

definition createArrowFunction :: "EntityName \<Rightarrow> ExtractState \<Rightarrow> StackEntry \<times> ExtractState" where
  "createArrowFunction typeName st =
     (ArrowEntry (created st) (entityNameText typeName), st\<lparr>created := created st + 1\<rparr>)"

definition ensureImportIsEmitted :: "Resolved \<Rightarrow> ExtractState \<Rightarrow> ExtractState" where
  "ensureImportIsEmitted resolved st =
     (case importSpecifier resolved of
        Some (ImportSpecifier k parent) \<Rightarrow> st\<lparr>synthesized := synthesized st @ [k]\<rparr>
      | _ \<Rightarrow> st)"

definition memberName :: "Node \<Rightarrow> PropertyName option" where
  "memberName member =
     (case member of
        PropertySignature n t \<Rightarrow> Some n
      | PropertyDeclaration ms n q t i \<Rightarrow> Some n
      | MethodDeclaration ms n ps t \<Rightarrow> Some n
      | OtherNode n \<Rightarrow> n
      | _ \<Rightarrow> None)"

definition pushModifiers :: "SyntaxKind list \<Rightarrow> ExtractState \<Rightarrow> ExtractState" where
  "pushModifiers modifiers st =
     (let st1 = (if hasModifier modifiers PrivateKeyword then pushOps st [ReflectionOp_private] else st);
          st2 = (if hasModifier modifiers ProtectedKeyword then pushOps st1 [ReflectionOp_protected] else st1)
      in if hasModifier modifiers AbstractKeyword then pushOps st2 [ReflectionOp_abstract] else st2)"

fun parameterTypes :: "Node option list \<Rightarrow> Node list" where
  "parameterTypes [] = []"
| "parameterTypes (None # ps) = parameterTypes ps"
| "parameterTypes (Some t # ps) = t # parameterTypes ps"

datatype Callable = IsMethod "SyntaxKind list" | IsConstructor | IsFunction

text \<open>
  \<^verbatim>\<open>extractPackStructOfType\<close> and \<^verbatim>\<open>extractPackStructOfTypeReference\<close>, with the loops of the
  source as functions of their own: over a list of types, over the parameters and the
  return type of a callable, over the members of an interface or a type literal and over
  its heritage clauses.
\<close>

function (sequential) extractPackStructOfType :: "nat \<Rightarrow> ReflectionTransformer \<Rightarrow> Node \<Rightarrow> ExtractState \<Rightarrow> error + ExtractState"
  and extractPackStructOfTypes :: "nat \<Rightarrow> ReflectionTransformer \<Rightarrow> Node list \<Rightarrow> ExtractState \<Rightarrow> error + ExtractState"
  and extractCallable :: "nat \<Rightarrow> ReflectionTransformer \<Rightarrow> Callable \<Rightarrow> Node option list \<Rightarrow> Node option \<Rightarrow> ExtractState \<Rightarrow> error + ExtractState"
  and extractMembers :: "nat \<Rightarrow> ReflectionTransformer \<Rightarrow> Node \<Rightarrow> Node list \<times> ExtractState \<Rightarrow> error + Node list \<times> ExtractState"
  and extractMemberList :: "nat \<Rightarrow> ReflectionTransformer \<Rightarrow> Node list \<Rightarrow> Node list \<times> ExtractState \<Rightarrow> error + Node list \<times> ExtractState"
  and extractHeritageClauses :: "nat \<Rightarrow> ReflectionTransformer \<Rightarrow> HeritageClause list \<Rightarrow> Node list \<times> ExtractState \<Rightarrow> error + Node list \<times> ExtractState"
  and extractHeritageTypes :: "nat \<Rightarrow> ReflectionTransformer \<Rightarrow> HeritageExpression list \<Rightarrow> Node list \<times> ExtractState \<Rightarrow> error + Node list \<times> ExtractState"
  and extractPackStructOfTypeReference :: "nat \<Rightarrow> ReflectionTransformer \<Rightarrow> EntityName \<Rightarrow> Node list option \<Rightarrow> ExtractState \<Rightarrow> error + ExtractState"
where
  "extractPackStructOfType 0 tr node st = Inl RangeError"
| "extractPackStructOfType (Suc depth) tr node st =
     (case node of
        ParenthesizedType t \<Rightarrow> extractPackStructOfType depth tr t st
      | KeywordNode k \<Rightarrow>
          (if k = StringKeyword then Inr (pushOps st [ReflectionOp_string])
           else if k = NumberKeyword then Inr (pushOps st [ReflectionOp_number])
           else if k = BooleanKeyword then Inr (pushOps st [ReflectionOp_boolean])
           else if k = BigIntKeyword then Inr (pushOps st [ReflectionOp_bigint])
           else if k = VoidKeyword then Inr (pushOps st [ReflectionOp_void])
           else if k = NullKeyword then Inr (pushOps st [ReflectionOp_null])
           else if k = UndefinedKeyword then Inr (pushOps st [ReflectionOp_undefined])
           else Inr (pushOps st [ReflectionOp_any]))
      | InterfaceDeclaration ms hs \<Rightarrow>
          (case extractMembers depth tr node ([], st) of
             Inl e \<Rightarrow> Inl e
           | Inr (members, st') \<Rightarrow> Inr (pushOps st' [ReflectionOp_objectLiteral]))
      | TypeLiteral ms \<Rightarrow>
          (case extractMembers depth tr node ([], st) of
             Inl e \<Rightarrow> Inl e
           | Inr (members, st') \<Rightarrow> Inr (pushOps st' [ReflectionOp_objectLiteral]))
      | TypeReference typeName typeArguments \<Rightarrow>
          extractPackStructOfTypeReference depth tr typeName typeArguments st
      | ArrayType elementType \<Rightarrow>
          (case extractPackStructOfType depth tr elementType st of
             Inl e \<Rightarrow> Inl e
           | Inr st' \<Rightarrow> Inr (pushOps st' [ReflectionOp_array]))
      | PropertySignature name ty \<Rightarrow>
          (case ty of
             Some t \<Rightarrow>
               (case extractPackStructOfType depth tr t st of
                  Inl e \<Rightarrow> Inl e
                | Inr st' \<Rightarrow>
                    Inr (pushOpWithEntry st' ReflectionOp_propertySignature
                           (StringEntry (getNameAsString (Some name)))))
           | None \<Rightarrow> Inr (pushOps st [ReflectionOp_any]))
      | ConstructorDeclaration parameters ty \<Rightarrow>
          (case ty of
             Some t \<Rightarrow>
               (case extractPackStructOfType depth tr t st of
                  Inl e \<Rightarrow> Inl e
                | Inr st' \<Rightarrow> Inr (pushOps st' [ReflectionOp_constructor]))
           | None \<Rightarrow> extractCallable depth tr IsConstructor parameters ty st)
      | PropertyDeclaration modifiers name questionToken ty initializer \<Rightarrow>
          (case ty of
             Some t \<Rightarrow>
               (case extractPackStructOfType depth tr t st of
                  Inl e \<Rightarrow> Inl e
                | Inr st' \<Rightarrow>
                    Inr (pushModifiers modifiers
                           (if questionToken then pushOps st' [ReflectionOp_optional] else st')))
           | None \<Rightarrow> Inr (pushOps st [ReflectionOp_any]))
      | MethodDeclaration modifiers name parameters ty \<Rightarrow>
          extractCallable depth tr (IsMethod modifiers) parameters ty st
      | ArrowFunction parameters ty \<Rightarrow> extractCallable depth tr IsFunction parameters ty st
      | FunctionExpression parameters ty \<Rightarrow> extractCallable depth tr IsFunction parameters ty st
      | FunctionDeclaration parameters ty \<Rightarrow> extractCallable depth tr IsFunction parameters ty st
      | LiteralType literal \<Rightarrow>
          (case literal of
             NullLiteral \<Rightarrow> Inr (pushOps st [ReflectionOp_null])
           | LiteralExpression i text \<Rightarrow>
               Inr (pushOpWithEntry st ReflectionOp_literal (NodeEntry i text)))
      | UnionType types \<Rightarrow>
          (case types of
             [] \<Rightarrow> Inr st
           | [t] \<Rightarrow> extractPackStructOfType depth tr t st
           | t # t' # ts \<Rightarrow>
               (case extractPackStructOfTypes depth tr types
                       (if ops st \<noteq> [] then pushOps st [ReflectionOp_frame] else st) of
                  Inl e \<Rightarrow> Inl e
                | Inr st' \<Rightarrow> Inr (pushOps st' [ReflectionOp_union])))
      | IndexSignature parameters ty \<Rightarrow>
          (case parameters of
             [] \<Rightarrow> Inl TypeError
           | p # ps \<Rightarrow>
               (case (case p of
                        Some t \<Rightarrow> extractPackStructOfType depth tr t st
                      | None \<Rightarrow> Inr (pushOps st [ReflectionOp_any])) of
                  Inl e \<Rightarrow> Inl e
                | Inr st1 \<Rightarrow>
                    (case ty of
                       None \<Rightarrow> Inl TypeError
                     | Some t \<Rightarrow>
                         (case extractPackStructOfType depth tr t st1 of
                            Inl e \<Rightarrow> Inl e
                          | Inr st2 \<Rightarrow> Inr (pushOps st2 [ReflectionOp_indexSignature])))))
      | _ \<Rightarrow> Inr (pushOps st [ReflectionOp_any]))"
| "extractPackStructOfTypes depth tr [] st = Inr st"
| "extractPackStructOfTypes depth tr (t # ts) st =
     (case extractPackStructOfType depth tr t st of
        Inl e \<Rightarrow> Inl e
      | Inr st' \<Rightarrow> extractPackStructOfTypes depth tr ts st')"
| "extractCallable depth tr kind parameters ty st =
     (if length parameters = 0 \<and> ty = None then Inr st
      else
        (case extractPackStructOfTypes depth tr (parameterTypes parameters) st of
           Inl e \<Rightarrow> Inl e
         | Inr st1 \<Rightarrow>
             (case (case ty of
                      Some t \<Rightarrow> extractPackStructOfType depth tr t st1
                    | None \<Rightarrow> Inr (pushOps st1 [ReflectionOp_any])) of
                Inl e \<Rightarrow> Inl e
              | Inr st2 \<Rightarrow>
                  (case kind of
                     IsMethod modifiers \<Rightarrow>
                       Inr (pushModifiers modifiers (pushOps st2 [ReflectionOp_method]))
                   | IsConstructor \<Rightarrow> Inr (pushOps st2 [ReflectionOp_method])
                   | IsFunction \<Rightarrow> Inr (pushOps st2 [ReflectionOp_function])))))"
| "extractMembers 0 tr declaration acc = Inl RangeError"
| "extractMembers (Suc depth) tr declaration acc =
     (case declaration of
        InterfaceDeclaration ms hs \<Rightarrow>
          (case extractMemberList depth tr ms acc of
             Inl e \<Rightarrow> Inl e
           | Inr acc' \<Rightarrow>
               (case hs of
                  None \<Rightarrow> Inr acc'
                | Some heritageClauses \<Rightarrow> extractHeritageClauses depth tr heritageClauses acc'))
      | TypeLiteral ms \<Rightarrow> extractMemberList depth tr ms acc
      | _ \<Rightarrow> Inl TypeError)"
| "extractMemberList depth tr [] acc = Inr acc"
| "extractMemberList depth tr (member # rest) (members, st) =
     (let name = getNameAsString (memberName member) in
      if name \<noteq> [] \<and> list_ex (\<lambda>v. getNameAsString (memberName v) = name) members
      then extractMemberList depth tr rest (members, st)
      else
        (case extractPackStructOfType depth tr member st of
           Inl e \<Rightarrow> Inl e
         | Inr st' \<Rightarrow> extractMemberList depth tr rest (members @ [member], st')))"
| "extractHeritageClauses depth tr [] acc = Inr acc"
| "extractHeritageClauses depth tr (HeritageClause token types # rest) acc =
     (if token = ExtendsKeyword then
        (case extractHeritageTypes depth tr types acc of
           Inl e \<Rightarrow> Inl e
         | Inr acc' \<Rightarrow> extractHeritageClauses depth tr rest acc')
      else extractHeritageClauses depth tr rest acc)"
| "extractHeritageTypes depth tr [] acc = Inr acc"
| "extractHeritageTypes depth tr (OtherHeritageExpression # rest) acc =
     extractHeritageTypes depth tr rest acc"
| "extractHeritageTypes depth tr (IdentifierExpression i text # rest) acc =
     (case resolveDeclaration depth tr (Identifier i text) of
        Inl e \<Rightarrow> Inl e
      | Inr None \<Rightarrow> extractHeritageTypes depth tr rest acc
      | Inr (Some resolved) \<Rightarrow>
          (if isInterfaceDeclaration (resolvedDeclaration resolved) then
             (case extractMembers depth tr (resolvedDeclaration resolved) acc of
                Inl e \<Rightarrow> Inl e
              | Inr acc' \<Rightarrow> extractHeritageTypes depth tr rest acc')
           else extractHeritageTypes depth tr rest acc))"
| "extractPackStructOfTypeReference 0 tr typeName typeArguments st = Inl RangeError"
| "extractPackStructOfTypeReference (Suc depth) tr typeName typeArguments st =
     (case (case typeName of Identifier i text \<Rightarrow> knownClasses text | _ \<Rightarrow> None) of
        Some op \<Rightarrow> Inr (pushOps st [op])
      | None \<Rightarrow>
          (if (case typeName of Identifier i text \<Rightarrow> text = ''Promise'' | _ \<Rightarrow> False) then
             (case (case typeArguments of
                      Some (t # ts) \<Rightarrow> extractPackStructOfType depth tr t st
                    | _ \<Rightarrow> Inr (pushOps st [ReflectionOp_any])) of
                Inl e \<Rightarrow> Inl e
              | Inr st' \<Rightarrow> Inr (pushOps st' [ReflectionOp_promise]))
           else
             (case resolveDeclaration depth tr typeName of
                Inl e \<Rightarrow> Inl e
              | Inr None \<Rightarrow> Inr (pushOps st [ReflectionOp_any])
              | Inr (Some resolved) \<Rightarrow>
                  (case typeOfTypeAlias (resolvedDeclaration resolved) of
                     Some t \<Rightarrow> extractPackStructOfType depth tr t st
                   | None \<Rightarrow>
                       if isMappedTypeNode (resolvedDeclaration resolved) then Inr st
                       else if isEnumDeclaration (resolvedDeclaration resolved) then
                         (case createArrowFunction typeName (ensureImportIsEmitted resolved st) of
                            (arrow, st') \<Rightarrow> Inr (pushOpWithEntry st' ReflectionOp_enum arrow))
                       else if isClassDeclaration (resolvedDeclaration resolved) then
                         (case createArrowFunction typeName (ensureImportIsEmitted resolved st) of
                            (arrow, st') \<Rightarrow>
                              (case (case typeArguments of
                                       Some ts \<Rightarrow>
                                         extractPackStructOfTypes depth tr ts
                                           (st'\<lparr>stack := stack st' @ [arrow]\<rparr>)
                                     | None \<Rightarrow> Inr (st'\<lparr>stack := stack st' @ [arrow]\<rparr>)) of
                                 Inl e \<Rightarrow> Inl e
                               | Inr st'' \<Rightarrow> Inr (pushOps st'' [ReflectionOp_class])))
                       else extractPackStructOfType depth tr (resolvedDeclaration resolved) st))))"

  by pat_completeness auto
termination
  by (relation "inv_image (less_than <*lex*> less_than <*lex*> less_than)
        (\<lambda>x. case x of
           Inl (Inl (Inl (depth, tr, node, st))) \<Rightarrow> (depth, 0, 0)
         | Inl (Inl (Inr (depth, tr, types, st))) \<Rightarrow> (depth, 1, length types)
         | Inl (Inr (Inl (depth, tr, kind, parameters, ty, st))) \<Rightarrow> (depth, 2, 0)
         | Inl (Inr (Inr (depth, tr, declaration, acc))) \<Rightarrow> (depth, 0, 0)
         | Inr (Inl (Inl (depth, tr, ms, acc))) \<Rightarrow> (depth, 1, length ms)
         | Inr (Inl (Inr (depth, tr, clauses, acc))) \<Rightarrow> (depth, 3, length clauses)
         | Inr (Inr (Inl (depth, tr, types, acc))) \<Rightarrow> (depth, 2, length types)
         | Inr (Inr (Inr (depth, tr, typeName, typeArguments, st))) \<Rightarrow> (depth, 0, 0))")
     auto

section \<open>The reflection mode\<close>

definition parseReflectionMode :: "ModeArgument option \<Rightarrow> string" where
  "parseReflectionMode mode =
     (case mode of
        Some (ModeBoolean b) \<Rightarrow> (if b then ''default'' else ''never'')
      | Some (ModeString s) \<Rightarrow> (if s = [] then ''never'' else s)
      | None \<Rightarrow> ''never'')"

text \<open>
  The loop over the tags of one node in \<^verbatim>\<open>findReflectionConfig\<close>: the mode the first tag
  named \<^verbatim>\<open>reflection\<close> with a string for its comment returns, \<open>None\<close> when the loop ends.
  The variable \<^verbatim>\<open>reflection\<close> of the source is never assigned, so \<^verbatim>\<open>!reflection\<close> holds.
\<close>

fun reflectionOfTags :: "JSDocTag list \<Rightarrow> string option" where
  "reflectionOfTags [] = None"
| "reflectionOfTags (tag # tags) =
     (case comment tag of
        Some c \<Rightarrow>
          if tagName tag = ''reflection''
          then Some (parseReflectionMode (Some (if c = [] then ModeBoolean True else ModeString c)))
          else reflectionOfTags tags
      | None \<Rightarrow> reflectionOfTags tags)"

text \<open>The loop \<^verbatim>\<open>do { ... current = current.parent } while (current)\<close>, on the node and its parents.\<close>

fun reflectionOfParents :: "ReflectionTransformer \<Rightarrow> Node list \<Rightarrow> string option" where
  "reflectionOfParents tr [] = None"
| "reflectionOfParents tr (current # parents) =
     (case reflectionOfTags (getJSDocTags tr current) of
        Some m \<Rightarrow> Some m
      | None \<Rightarrow> reflectionOfParents tr parents)"

text \<open>The loop over the directories, from the one of the source file up to the root.\<close>

fun reflectionOfTsConfigs :: "TsConfig list \<Rightarrow> string option" where
  "reflectionOfTsConfigs [] = None"
| "reflectionOfTsConfigs (NoTsConfig # dirs) = reflectionOfTsConfigs dirs"
| "reflectionOfTsConfigs (InvalidTsConfig # dirs) = reflectionOfTsConfigs dirs"
| "reflectionOfTsConfigs (TsConfig field # dirs) =
     (case field of
        Some v \<Rightarrow> Some (parseReflectionMode (Some v))
      | None \<Rightarrow> reflectionOfTsConfigs dirs)"

definition findReflectionConfig :: "ReflectionTransformer \<Rightarrow> Node \<Rightarrow> Node list \<Rightarrow> string" where
  "findReflectionConfig tr node parents =
     (case reflectionOfParents tr (node # parents) of
        Some m \<Rightarrow> m
      | None \<Rightarrow>
          (case reflectionMode tr of
             Some m \<Rightarrow> m
           | None \<Rightarrow>
               (case reflectionOfTsConfigs (tsconfigs tr) of
                  Some m \<Rightarrow> m
                | None \<Rightarrow> ''never'')))"

section \<open>The decorator\<close>

definition entryToExpression :: "StackEntry \<Rightarrow> Expression" where
  "entryToExpression v =
     (case v of
        StringEntry s \<Rightarrow> StringLiteral s
      | NumberEntry n \<Rightarrow> NumericLiteral n
      | _ \<Rightarrow> EntryExpression v)"

definition valueToExpression :: "Packed \<Rightarrow> Expression" where
  "valueToExpression v =
     (case v of
        PackedArray xs \<Rightarrow> ArrayLiteralExpression (map entryToExpression xs)
      | PackedString s \<Rightarrow> StringLiteral s)"

text \<open>
  \<^verbatim>\<open>packOpsAndStack\<close> packs the ops and the stack, so an error of \<^verbatim>\<open>pack\<close> is an error of
  it. Between the two it calls \<^verbatim>\<open>debugPackStruct\<close>, which writes the names of the ops to the
  console and gives nothing back; what is written is no part of the state here.
\<close>

definition packOpsAndStack :: "ExtractState \<Rightarrow> error + Expression option" where
  "packOpsAndStack packStruct =
     (if length (ops packStruct) = 0 then Inr None
      else
        (case pack (OfStruct \<lparr>ops = ops packStruct, stack = stack packStruct\<rparr>) of
           Inl e \<Rightarrow> Inl e
         | Inr packed \<Rightarrow> Inr (Some (valueToExpression packed))))"

definition newPackStruct :: ExtractState where
  "newPackStruct = \<lparr>ops = [], stack = [], created = 0, synthesized = []\<rparr>"

definition getTypeOfType :: "nat \<Rightarrow> ReflectionTransformer \<Rightarrow> Node \<Rightarrow> Node list \<Rightarrow> error + Expression option" where
  "getTypeOfType depth tr ty parents =
     (if findReflectionConfig tr ty parents = ''never'' then Inr None
      else
        (case extractPackStructOfType depth tr ty newPackStruct of
           Inl e \<Rightarrow> Inl e
         | Inr packStruct \<Rightarrow> packOpsAndStack packStruct))"

text \<open>
  \<^verbatim>\<open>property.name ? property.name : isConstructorDeclaration(property) ? 'constructor' : ''\<close>:
  a name node or a string.
\<close>

datatype ElementName = NameNode PropertyName | NameString string

definition elementName :: "Node \<Rightarrow> ElementName" where
  "elementName property =
     (case memberName property of
        Some n \<Rightarrow> NameNode n
      | None \<Rightarrow>
          (case property of
             ConstructorDeclaration ps t \<Rightarrow> NameString ''constructor''
           | _ \<Rightarrow> NameString []))"

text \<open>
  The loop of \<^verbatim>\<open>decorateClass\<close> over the members. \<open>Inr None\<close> is the early return at a
  member whose name is the identifier \<^verbatim>\<open>__type\<close>; otherwise the property assignments.
  A string given as the name of a property assignment becomes an identifier.
\<close>

fun decorateMembers :: "nat \<Rightarrow> ReflectionTransformer \<Rightarrow> Node list \<Rightarrow> Node list \<Rightarrow> (PropertyName \<times> Expression) list \<Rightarrow> error + (PropertyName \<times> Expression) list option" where
  "decorateMembers depth tr parents [] elements = Inr (Some elements)"
| "decorateMembers depth tr parents (property # rest) elements =
     (case elementName property of
        NameString s \<Rightarrow>
          if s = [] then decorateMembers depth tr parents rest elements
          else
            (case getTypeOfType depth tr property parents of
               Inl e \<Rightarrow> Inl e
             | Inr None \<Rightarrow> decorateMembers depth tr parents rest elements
             | Inr (Some encodedType) \<Rightarrow>
                 decorateMembers depth tr parents rest (elements @ [(IdentifierName s, encodedType)]))
      | NameNode n \<Rightarrow>
          if n = IdentifierName ''__type'' then Inr None
          else
            (case getTypeOfType depth tr property parents of
               Inl e \<Rightarrow> Inl e
             | Inr None \<Rightarrow> decorateMembers depth tr parents rest elements
             | Inr (Some encodedType) \<Rightarrow>
                 decorateMembers depth tr parents rest (elements @ [(n, encodedType)])))"

definition decorateClass :: "nat \<Rightarrow> ReflectionTransformer \<Rightarrow> Node \<Rightarrow> Node list \<Rightarrow> error + Node" where
  "decorateClass depth tr classDeclaration parents =
     (if findReflectionConfig tr classDeclaration parents = ''never'' then Inr classDeclaration
      else
        (case classDeclaration of
           ClassDeclaration members \<Rightarrow>
             (case decorateMembers depth tr (classDeclaration # parents) members [] of
                Inl e \<Rightarrow> Inl e
              | Inr None \<Rightarrow> Inr classDeclaration
              | Inr (Some elements) \<Rightarrow>
                  if length elements = 0 then Inr classDeclaration
                  else Inr (ClassDeclaration
                         (members @
                            [PropertyDeclaration [StaticKeyword] (IdentifierName ''__type'') False None
                               (Some (ObjectLiteralExpression elements))])))
         | _ \<Rightarrow> Inl TypeError))"

section \<open>Predicates of the specification\<close>

text \<open>
  The opcodes with a parameter slot, as the specification lists them, and the opcodes that
  the extractor pushes alone.
\<close>

definition addressedOps :: "OpValue list" where
  "addressedOps = [ReflectionOp_literal, ReflectionOp_propertySignature, ReflectionOp_methodSignature, ReflectionOp_enum]"

definition plainOps :: "OpValue list" where
  "plainOps =
     [ReflectionOp_any, ReflectionOp_void, ReflectionOp_string, ReflectionOp_number,
      ReflectionOp_boolean, ReflectionOp_bigint, ReflectionOp_null, ReflectionOp_undefined,
      ReflectionOp_function, ReflectionOp_method, ReflectionOp_constructor, ReflectionOp_class,
      ReflectionOp_optional, ReflectionOp_private, ReflectionOp_protected, ReflectionOp_abstract,
      ReflectionOp_array, ReflectionOp_union, ReflectionOp_indexSignature,
      ReflectionOp_objectLiteral, ReflectionOp_frame, ReflectionOp_date, ReflectionOp_int8Array,
      ReflectionOp_uint8ClampedArray, ReflectionOp_uint8Array, ReflectionOp_int16Array,
      ReflectionOp_uint16Array, ReflectionOp_int32Array, ReflectionOp_uint32Array,
      ReflectionOp_float32Array, ReflectionOp_float64Array, ReflectionOp_bigInt64Array,
      ReflectionOp_arrayBuffer, ReflectionOp_promise]"

inductive emits :: "ExtractState \<Rightarrow> ExtractState \<Rightarrow> bool" where
  emits_refl: "emits st st"
| emits_op: "emits st st' \<Longrightarrow> op \<in> set plainOps \<Longrightarrow> emits st (pushOps st' [op])"
| emits_entry: "emits st st' \<Longrightarrow> op \<in> set addressedOps \<Longrightarrow> (\<forall>i t. entry \<noteq> ArrowEntry i t) \<Longrightarrow> emits st (pushOpWithEntry st' op entry)"
| emits_enum: "emits st st' \<Longrightarrow> op \<in> set addressedOps  \<Longrightarrow> createArrowFunction n st' = (arrow, st'') \<Longrightarrow> emits st (pushOpWithEntry st'' op arrow)"
| emits_class: "emits st st' \<Longrightarrow> createArrowFunction n st' = (arrow, st'') \<Longrightarrow> emits st (st''\<lparr>stack := stack st'' @ [arrow]\<rparr>)"
| emits_import: "emits st st' \<Longrightarrow> emits st (ensureImportIsEmitted r st')"
| emits_inherited: "emits st st' \<Longrightarrow> emits st (pushOps st' [FunctionValue f])"

fun wellAddressed :: "OpValue list \<Rightarrow> nat \<Rightarrow> bool" where
  "wellAddressed [] n = True"
| "wellAddressed (op # rest) n =
     (if op \<in> set addressedOps
      then (case rest of
              NumberValue a # rest' \<Rightarrow> a < n \<and> wellAddressed rest' n
            | _ \<Rightarrow> False)
      else wellAddressed rest n)"

definition strictlyDistinct :: "StackEntry list \<Rightarrow> bool" where
  "strictlyDistinct stk =
     (\<forall>i < length stk. \<forall>j < length stk. strictEquals (stk ! i) (stk ! j) \<longrightarrow> i = j)"

definition arrowsBelow :: "nat \<Rightarrow> StackEntry list \<Rightarrow> bool" where
  "arrowsBelow c stk = (\<forall>i t. ArrowEntry i t \<in> set stk \<longrightarrow> i < c)"

definition plainTransformer :: "string option \<Rightarrow> ReflectionTransformer" where
  "plainTransformer override =
     \<lparr>reflectionMode = override,
      getSymbolAtLocation = (\<lambda>i s. None),
      getExternalModuleFileFromDeclaration = (\<lambda>d. None),
      getJSDocTags = (\<lambda>n. []),
      tsconfigs = []\<rparr>"

definition textuallyEqual :: "StackEntry \<Rightarrow> StackEntry \<Rightarrow> bool" where
  "textuallyEqual a b =
     (case (a, b) of
        (StringEntry x, StringEntry y) \<Rightarrow> x = y
      | (NumberEntry x, NumberEntry y) \<Rightarrow> x = y
      | (BooleanEntry x, BooleanEntry y) \<Rightarrow> x = y
      | (NodeEntry i s, NodeEntry j t) \<Rightarrow> s = t
      | (ArrowEntry i s, ArrowEntry j t) \<Rightarrow> s = t
      | _ \<Rightarrow> False)"

fun recurseEach :: "(Node \<Rightarrow> ExtractState \<Rightarrow> error + ExtractState) \<Rightarrow> Node list \<Rightarrow> ExtractState \<Rightarrow> error + ExtractState" where
  "recurseEach g [] st = Inr st"
| "recurseEach g (t # ts) st = (case g t st of Inl e \<Rightarrow> Inl e | Inr st' \<Rightarrow> recurseEach g ts st')"

fun unhandledShape :: "Node \<Rightarrow> bool" where
  "unhandledShape (KeywordNode k) =
     (k \<notin> {StringKeyword, NumberKeyword, BooleanKeyword, BigIntKeyword, VoidKeyword,
            NullKeyword, UndefinedKeyword})"
| "unhandledShape (PropertySignature name None) = True"
| "unhandledShape (PropertyDeclaration modifiers name questionToken None initializer) = True"
| "unhandledShape (TypeAliasDeclaration t) = True"
| "unhandledShape MappedType = True"
| "unhandledShape EnumDeclaration = True"
| "unhandledShape (ClassDeclaration members) = True"
| "unhandledShape (ImportSpecifier i parent) = True"
| "unhandledShape (OtherNode name) = True"
| "unhandledShape node = False"





section \<open>Examples\<close>

text \<open>
  The member \<^verbatim>\<open>title: string\<close> of \<^verbatim>\<open>class M { title: string }\<close>, the static member
  \<^verbatim>\<open>__type\<close> that the decorator adds, and transformers to run the examples with: one with
  a tag \<^verbatim>\<open>@reflection c\<close> on one node, one with configuration files only, and one whose
  checker resolves \<^verbatim>\<open>User\<close> to the import specifier of \<^verbatim>\<open>import { User } from './user'\<close>,
  where the module \<^verbatim>\<open>./user\<close> declares the class \<^verbatim>\<open>User\<close>.
\<close>

definition titleMember :: Node where
  "titleMember =
     PropertyDeclaration [] (IdentifierName ''title'') False (Some (KeywordNode StringKeyword)) None"

definition typeMember :: "Expression \<Rightarrow> Node" where
  "typeMember types =
     PropertyDeclaration [StaticKeyword] (IdentifierName ''__type'') False None (Some types)"

definition userModule :: SourceFile where
  "userModule =
     \<lparr>locals = Some [''User'' \<mapsto> \<lparr>declarations = Some [ClassDeclaration []],
                                      declaredTypeDeclaration = None\<rparr>],
      statements = []\<rparr>"

definition importingTransformer :: ReflectionTransformer where
  "importingTransformer =
     \<lparr>reflectionMode = None,
      getSymbolAtLocation =
        (\<lambda>i s. if s = ''User''
                then Some \<lparr>declarations =
                             Some [ImportSpecifier 7 (ImportDeclaration (StringLiteralSpecifier ''./user''))],
                           declaredTypeDeclaration = None\<rparr>
                else None),
      getExternalModuleFileFromDeclaration =
        (\<lambda>d. if d = ImportDeclaration (StringLiteralSpecifier ''./user'') then Some userModule else None),
      getJSDocTags = (\<lambda>n. []),
      tsconfigs = []\<rparr>"



section \<open>Properties of the codec\<close>

lemma unpackOps_short: "length s \<le> 12 \<Longrightarrow> unpackOps acc s = acc"
  by (cases "s = []") (simp_all add: parseInt36_def slot_def)

text \<open>
  C10. Given an array whose last element is not the string \<^verbatim>\<open>string\<close> (also an empty
  array, which has no last element), \<^verbatim>\<open>unpack\<close> returns no ops and an empty stack.
\<close>

theorem unpack_array_last_not_string:
  "xs = [] \<or> last xs \<noteq> StringEntry ''string'' \<Longrightarrow>
     unpack (PackedArray xs) = \<lparr>ops = [], stack = []\<rparr>"
  by (auto simp: unpack_def)

theorem unpack_array_last_not_string_witness:
  "unpack (PackedArray [StringEntry ''a'', StringEntry ''3'']) = \<lparr>ops = [], stack = []\<rparr>"
  using unpack_array_last_not_string [of "[StringEntry ''a'', StringEntry ''3'']"]
  by simp

text \<open>
  C1. \<^verbatim>\<open>unpack\<close> after \<^verbatim>\<open>pack\<close> does not give the ops and the stack back. For the ops
  \<^verbatim>\<open>[string]\<close> and the stack \<^verbatim>\<open>['a']\<close> the packed form is \<^verbatim>\<open>['a', '3']\<close>, whose last element
  is not the text \<^verbatim>\<open>'string'\<close>, and \<^verbatim>\<open>unpack\<close> returns no ops and no stack. With an empty
  stack the packed form is \<^verbatim>\<open>'3'\<close>; \<^verbatim>\<open>unpackOps\<close> cuts twelve characters off before it
  parses, so nothing is left to parse and no op is decoded.
\<close>

theorem unpack_pack_loses_ops_and_stack:
  "pack (OfStruct \<lparr>ops = [ReflectionOp_string], stack = [StringEntry ''a'']\<rparr>) =
     Inr (PackedArray [StringEntry ''a'', StringEntry ''3'']) \<and>
   unpack (PackedArray [StringEntry ''a'', StringEntry ''3'']) = \<lparr>ops = [], stack = []\<rparr> \<and>
   pack (OfStruct \<lparr>ops = [ReflectionOp_string], stack = []\<rparr>) = Inr (PackedString ''3'') \<and>
   unpack (PackedString ''3'') = \<lparr>ops = [], stack = []\<rparr>"
  by (simp add: pack_def unpack_def ReflectionOp_string_def digit36_def unpackOps_short
      del: unpackOps.simps)

section \<open>Properties of the reflection mode\<close>








lemma plain_mode [simp]:
  "findReflectionConfig (plainTransformer (Some m)) node parents = m"
  by (simp add: findReflectionConfig_def plainTransformer_def)
    (induction parents, simp_all)


section \<open>Properties of the resolver\<close>

text \<open>
  C4. For an identifier \<^verbatim>\<open>User\<close> whose first declaration is the import specifier of
  \<^verbatim>\<open>import { User } from './user'\<close> and whose declared type has no declaration,
  \<^verbatim>\<open>resolveDeclaration\<close> finds nothing, although \<^verbatim>\<open>resolveImportSpecifier\<close> with the name
  \<^verbatim>\<open>User\<close> finds the class in the module: the name it passes is the text \<^verbatim>\<open>'Message'\<close>.
\<close>

theorem import_fallback_probes_Message:
  "resolveDeclaration (Suc 0) importingTransformer (Identifier 1 ''User'') = Inr None \<and>
   resolveImportSpecifier (Suc 0) importingTransformer ''User''
     (ImportDeclaration (StringLiteralSpecifier ''./user'')) = Inr (Some (ClassDeclaration []))"
  by (simp add: resolveDeclaration_def importingTransformer_def userModule_def firstDeclaration_def
      isImportSpecifier_def moduleSpecifier_def findDeclarationInFile_def)

section \<open>Properties of the extractor\<close>

lemma emits_trans: "emits b c \<Longrightarrow> emits a b \<Longrightarrow> emits a c"
  by (induction rule: emits.induct) (auto intro: emits.intros)

lemma plainOps_mem [simp]:
  "ReflectionOp_any \<in> set plainOps" "ReflectionOp_void \<in> set plainOps"
  "ReflectionOp_string \<in> set plainOps" "ReflectionOp_number \<in> set plainOps"
  "ReflectionOp_boolean \<in> set plainOps" "ReflectionOp_bigint \<in> set plainOps"
  "ReflectionOp_null \<in> set plainOps" "ReflectionOp_undefined \<in> set plainOps"
  "ReflectionOp_function \<in> set plainOps" "ReflectionOp_method \<in> set plainOps"
  "ReflectionOp_constructor \<in> set plainOps" "ReflectionOp_class \<in> set plainOps"
  "ReflectionOp_optional \<in> set plainOps" "ReflectionOp_private \<in> set plainOps"
  "ReflectionOp_protected \<in> set plainOps" "ReflectionOp_abstract \<in> set plainOps"
  "ReflectionOp_array \<in> set plainOps" "ReflectionOp_union \<in> set plainOps"
  "ReflectionOp_indexSignature \<in> set plainOps" "ReflectionOp_objectLiteral \<in> set plainOps"
  "ReflectionOp_frame \<in> set plainOps" "ReflectionOp_promise \<in> set plainOps"
  by (simp_all add: plainOps_def)

lemma addressedOps_mem [simp]:
  "ReflectionOp_literal \<in> set addressedOps" "ReflectionOp_propertySignature \<in> set addressedOps"
  "ReflectionOp_enum \<in> set addressedOps"
  by (simp_all add: addressedOps_def)

lemma emits_modifiers: "emits st st' \<Longrightarrow> emits st (pushModifiers ms st')"
  unfolding pushModifiers_def Let_def
  by (auto intro!: emits_op)

lemma knownClasses_plain:
  "knownClasses s = Some op \<Longrightarrow> op \<in> set plainOps \<or> op = FunctionValue s"
  by (auto simp: knownClasses_def plainOps_def split: if_splits)

lemma extract_emits:
  "\<forall>st'. extractPackStructOfType d tr node st = Inr st' \<longrightarrow> emits st st'"
  "\<forall>st'. extractPackStructOfTypes d tr ts st = Inr st' \<longrightarrow> emits st st'"
  "\<forall>st'. extractCallable d tr kind ps ty st = Inr st' \<longrightarrow> emits st st'"
  "\<forall>ms' st'. extractMembers d tr decl acc = Inr (ms', st') \<longrightarrow> emits (snd acc) st'"
  "\<forall>ms' st'. extractMemberList d tr ms acc = Inr (ms', st') \<longrightarrow> emits (snd acc) st'"
  "\<forall>ms' st'. extractHeritageClauses d tr cs acc = Inr (ms', st') \<longrightarrow> emits (snd acc) st'"
  "\<forall>ms' st'. extractHeritageTypes d tr es acc = Inr (ms', st') \<longrightarrow> emits (snd acc) st'"
  "\<forall>st'. extractPackStructOfTypeReference d tr n args st = Inr st' \<longrightarrow> emits st st'"
proof (induction d tr node st and d tr ts st and d tr kind ps ty st and d tr decl acc
    and d tr ms acc and d tr cs acc and d tr es acc and d tr n args st
    rule: extractPackStructOfType_extractPackStructOfTypes_extractCallable_extractMembers_extractMemberList_extractHeritageClauses_extractHeritageTypes_extractPackStructOfTypeReference.induct)
  case (1 tr node st)
  then show ?case by simp
next
  case (2 depth tr node st)
  show ?case
  proof (cases node)
    case (IndexSignature parameters ty)
    show ?thesis
    proof (intro allI impI)
      fix st'
      assume r: "extractPackStructOfType (Suc depth) tr node st = Inr st'"
      from r IndexSignature obtain p ps t st1 st2 where
        ps: "parameters = p # ps" and ty: "ty = Some t"
        and first: "(case p of Some t \<Rightarrow> extractPackStructOfType depth tr t st
                     | None \<Rightarrow> Inr (pushOps st [ReflectionOp_any])) = Inr st1"
        and second: "extractPackStructOfType depth tr t st1 = Inr st2"
        and st': "st' = pushOps st2 [ReflectionOp_indexSignature]"
        by (auto split: list.splits option.splits sum.splits)
      have "emits st st1"
      proof (cases p)
        case None
        with first show ?thesis by (auto intro: emits.intros)
      next
        case (Some tp)
        with first "2.IH"(16) [OF IndexSignature ps Some] show ?thesis by simp
      qed
      moreover have "emits st1 st2"
        using "2.IH"(17) [OF IndexSignature ps first ty] second by simp
      ultimately show "emits st st'"
        unfolding st' by (auto intro: emits.intros emits_trans)
    qed
  next
    case (UnionType types)
    show ?thesis
    proof (intro allI impI)
      fix st'
      assume r: "extractPackStructOfType (Suc depth) tr node st = Inr st'"
      show "emits st st'"
      proof (cases types)
        case Nil
        with r UnionType show ?thesis by (simp add: emits_refl)
      next
        case (Cons t ts)
        show ?thesis
        proof (cases ts)
          case Nil
          with r UnionType Cons "2.IH"(14) [OF UnionType Cons Nil] show ?thesis by simp
        next
          case (Cons t' ts')
          define st0 where "st0 = (if ops st \<noteq> [] then pushOps st [ReflectionOp_frame] else st)"
          from r UnionType \<open>types = t # ts\<close> Cons obtain st2 where
            run: "extractPackStructOfTypes depth tr types st0 = Inr st2"
            and st': "st' = pushOps st2 [ReflectionOp_union]"
            unfolding st0_def
            by (simp del: extractPackStructOfTypes.simps split: sum.splits)
          have "emits st st0"
            unfolding st0_def by (auto intro: emits.intros)
          moreover have "emits st0 st2"
            using "2.IH"(15) [OF UnionType \<open>types = t # ts\<close> Cons] run
            unfolding st0_def by simp
          ultimately show ?thesis
            unfolding st' by (auto intro: emits.intros emits_trans)
        qed
      qed
    qed
  qed (use 2 in \<open>auto split: sum.splits option.splits list.splits Literal.splits if_splits
      intro!: emits_modifiers emits_op intro: emits.intros emits_trans\<close>)
next
  case (3 depth tr st)
  then show ?case by (simp add: emits_refl)
next
  case (4 depth tr t ts st)
  then show ?case by (auto split: sum.splits intro: emits_trans)
next
  case (5 depth tr kind parameters ty st)
  show ?case
  proof (intro allI impI)
    fix st'
    assume r: "extractCallable depth tr kind parameters ty st = Inr st'"
    show "emits st st'"
    proof (cases "length parameters = 0 \<and> ty = None")
      case True
      with r show ?thesis by (simp add: emits_refl)
    next
      case False
      from r False obtain st1 where
        a: "extractPackStructOfTypes depth tr (parameterTypes parameters) st = Inr st1"
        by (auto split: sum.splits)
      from r False a obtain st2 where
        b: "(case ty of Some t \<Rightarrow> extractPackStructOfType depth tr t st1
             | None \<Rightarrow> Inr (pushOps st1 [ReflectionOp_any])) = Inr st2"
        by (auto split: sum.splits)
      from r False a b have
        c: "st' = (case kind of
                     IsMethod modifiers \<Rightarrow> pushModifiers modifiers (pushOps st2 [ReflectionOp_method])
                   | IsConstructor \<Rightarrow> pushOps st2 [ReflectionOp_method]
                   | IsFunction \<Rightarrow> pushOps st2 [ReflectionOp_function])"
        by (auto split: Callable.splits)
      have 1: "emits st st1"
        using "5.IH"(1) [OF False] a by simp
      have 2: "emits st1 st2"
      proof (cases ty)
        case None
        with b show ?thesis by (auto intro!: emits_op emits_refl)
      next
        case (Some t)
        with b "5.IH"(2) [OF False a Some] show ?thesis by simp
      qed
      have 3: "emits st2 st'"
        unfolding c by (cases kind) (auto intro!: emits_modifiers emits_op emits_refl)
      from 1 2 3 show ?thesis by (blast intro: emits_trans)
    qed
  qed
next
  case (6 tr decl acc)
  then show ?case by simp
next
  case (7 depth tr decl acc)
  then show ?case
    apply (cases decl)
    apply (auto split: sum.splits option.splits intro: emits_trans)
    done
next
  case (8 depth tr acc)
  then show ?case by (simp add: emits_refl)
next
  case (9 depth tr member rest members st)
  show ?case
  proof (intro allI impI)
    fix ms' st'
    assume r: "extractMemberList depth tr (member # rest) (members, st) = Inr (ms', st')"
    define name where "name = getNameAsString (memberName member)"
    show "emits (snd (members, st)) st'"
    proof (cases "name \<noteq> [] \<and> list_ex (\<lambda>v. getNameAsString (memberName v) = name) members")
      case True
      with r have "extractMemberList depth tr rest (members, st) = Inr (ms', st')"
        by (simp add: name_def Let_def)
      with "9.IH"(1) [OF name_def True] show ?thesis by simp
    next
      case False
      with r obtain st1 where
        a: "extractPackStructOfType depth tr member st = Inr st1"
        and b: "extractMemberList depth tr rest (members @ [member], st1) = Inr (ms', st')"
        by (auto simp: name_def Let_def split: sum.splits)
      have "emits st st1"
        using "9.IH"(2) [OF name_def False] a by simp
      moreover have "emits st1 st'"
        using "9.IH"(3) [OF name_def False a] b by simp
      ultimately show ?thesis by (auto intro: emits_trans)
    qed
  qed
next
  case (10 depth tr acc)
  then show ?case by (simp add: emits_refl)
next
  case (11 depth tr token types rest acc)
  then show ?case by (auto split: sum.splits if_splits intro: emits_trans)
next
  case (12 depth tr acc)
  then show ?case by (simp add: emits_refl)
next
  case (13 depth tr rest acc)
  then show ?case by simp
next
  case (14 depth tr i nm rest acc)
  show ?case
  proof (intro allI impI)
    fix ms' st'
    assume r: "extractHeritageTypes depth tr (IdentifierExpression i nm # rest) acc = Inr (ms', st')"
    from r obtain b where res: "resolveDeclaration depth tr (Identifier i nm) = Inr b"
      by (auto split: sum.splits)
    show "emits (snd acc) st'"
    proof (cases b)
      case None
      with r res have "extractHeritageTypes depth tr rest acc = Inr (ms', st')" by simp
      with "14.IH"(1) [OF res None] show ?thesis by simp
    next
      case (Some resolved)
      show ?thesis
      proof (cases "isInterfaceDeclaration (resolvedDeclaration resolved)")
        case True
        with r res Some obtain acc1 where
          a: "extractMembers depth tr (resolvedDeclaration resolved) acc = Inr acc1"
          and b': "extractHeritageTypes depth tr rest acc1 = Inr (ms', st')"
          by (auto split: sum.splits)
        obtain m1 s1 where acc1: "acc1 = (m1, s1)" by (cases acc1)
        have "emits (snd acc) s1"
          using "14.IH"(2) [OF res Some True] a acc1 by simp
        moreover have "emits s1 st'"
          using "14.IH"(3) [OF res Some True a] b' acc1 by simp
        ultimately show ?thesis by (auto intro: emits_trans)
      next
        case False
        with r res Some have "extractHeritageTypes depth tr rest acc = Inr (ms', st')" by simp
        with "14.IH"(4) [OF res Some False] show ?thesis by simp
      qed
    qed
  qed
next
  case (15 tr typeName typeArguments st)
  then show ?case by simp
next
  case (16 depth tr typeName typeArguments st)
  show ?case
  proof (intro allI impI)
    fix st'
    assume r: "extractPackStructOfTypeReference (Suc depth) tr typeName typeArguments st = Inr st'"
    show "emits st st'"
    proof (cases "case typeName of Identifier i x \<Rightarrow> knownClasses x | QualifiedName l r \<Rightarrow> None")
      case (Some op)
      with r have "st' = pushOps st [op]" by simp
      moreover have "op \<in> set plainOps \<or> (\<exists>f. op = FunctionValue f)"
        using Some by (auto split: EntityName.splits dest: knownClasses_plain)
      ultimately show ?thesis by (auto intro: emits.intros)
    next
      case None
      note known = None
      show ?thesis
      proof (cases "case typeName of Identifier i x \<Rightarrow> x = ''Promise'' | QualifiedName l r \<Rightarrow> False")
        case True
        from r known True obtain st1 where
          a: "(case typeArguments of
                 Some (t # ts) \<Rightarrow> extractPackStructOfType depth tr t st
               | _ \<Rightarrow> Inr (pushOps st [ReflectionOp_any])) = Inr st1"
          and b: "st' = pushOps st1 [ReflectionOp_promise]"
          by (auto split: sum.splits)
        have "emits st st1"
        proof (cases typeArguments)
          case None
          with a show ?thesis by (auto intro!: emits_op emits_refl)
        next
          case (Some targs)
          show ?thesis
          proof (cases targs)
            case Nil
            with a Some show ?thesis by (auto intro!: emits_op emits_refl)
          next
            case (Cons t ts)
            with a Some "16.IH"(1) [OF known True Some Cons] show ?thesis by simp
          qed
        qed
        then show ?thesis unfolding b by (auto intro!: emits_op)
      next
        case False
        from r known False obtain b where
          res: "resolveDeclaration depth tr typeName = Inr b"
          by (auto split: sum.splits)
        show ?thesis
        proof (cases b)
          case None
          with r known False res have "st' = pushOps st [ReflectionOp_any]" by simp
          then show ?thesis by (auto intro!: emits_op emits_refl)
        next
          case (Some resolved)
          note rs = r known False res Some
          show ?thesis
          proof (cases "typeOfTypeAlias (resolvedDeclaration resolved)")
            case (Some t)
            with rs have "extractPackStructOfType depth tr t st = Inr st'" by simp
            with "16.IH"(4) [OF known False res \<open>b = Some resolved\<close> Some] show ?thesis by simp
          next
            case None
            note na = None
            obtain arrow st1 where
              c: "createArrowFunction typeName (ensureImportIsEmitted resolved st) = (arrow, st1)"
              by (cases "createArrowFunction typeName (ensureImportIsEmitted resolved st)")
            have e1: "emits st (ensureImportIsEmitted resolved st)"
              by (auto intro: emits.intros)
            consider
              (mapped) "isMappedTypeNode (resolvedDeclaration resolved)"
            | (enum) "\<not> isMappedTypeNode (resolvedDeclaration resolved)"
                "isEnumDeclaration (resolvedDeclaration resolved)"
            | (cls) "\<not> isMappedTypeNode (resolvedDeclaration resolved)"
                "\<not> isEnumDeclaration (resolvedDeclaration resolved)"
                "isClassDeclaration (resolvedDeclaration resolved)"
            | (other) "\<not> isMappedTypeNode (resolvedDeclaration resolved)"
                "\<not> isEnumDeclaration (resolvedDeclaration resolved)"
                "\<not> isClassDeclaration (resolvedDeclaration resolved)"
              by blast
            then show ?thesis
            proof cases
              case mapped
              with rs na have "st' = st" by simp
              then show ?thesis by (simp add: emits_refl)
            next
              case enum
              with rs na c have "st' = pushOpWithEntry st1 ReflectionOp_enum arrow" by simp
              then show ?thesis
                using emits_enum [OF e1 _ c, of ReflectionOp_enum] by simp
            next
              case cls
              define st2 where "st2 = st1\<lparr>stack := stack st1 @ [arrow]\<rparr>"
              have e2: "emits st st2"
                unfolding st2_def using emits_class [OF e1 c] by simp
              from rs na cls c obtain st3 where
                d: "(case typeArguments of
                       Some ts \<Rightarrow> extractPackStructOfTypes depth tr ts st2
                     | None \<Rightarrow> Inr st2) = Inr st3"
                and e: "st' = pushOps st3 [ReflectionOp_class]"
                unfolding st2_def by (auto split: sum.splits)
              have "emits st2 st3"
              proof (cases typeArguments)
                case None
                with d show ?thesis by (simp add: emits_refl)
              next
                case (Some ts)
                with d "16.IH"(2) [OF known False res \<open>b = Some resolved\<close> na cls c [symmetric] Some]
                show ?thesis unfolding st2_def by simp
              qed
              with e2 show ?thesis unfolding e by (auto intro!: emits_op intro: emits_trans)
            next
              case other
              with rs na have "extractPackStructOfType depth tr (resolvedDeclaration resolved) st = Inr st'"
                by simp
              with "16.IH"(3) [OF known False res \<open>b = Some resolved\<close> na other] show ?thesis by simp
            qed
          qed
        qed
      qed
    qed
  qed
qed

lemma plain_not_addressed: "op \<in> set plainOps \<Longrightarrow> op \<notin> set addressedOps"
  unfolding plainOps_def addressedOps_def
  by (auto simp: ReflectionOp_any_def ReflectionOp_void_def ReflectionOp_string_def
      ReflectionOp_number_def ReflectionOp_boolean_def ReflectionOp_bigint_def ReflectionOp_null_def
      ReflectionOp_undefined_def ReflectionOp_function_def ReflectionOp_method_def
      ReflectionOp_constructor_def ReflectionOp_class_def ReflectionOp_optional_def
      ReflectionOp_private_def ReflectionOp_protected_def ReflectionOp_abstract_def
      ReflectionOp_array_def ReflectionOp_union_def ReflectionOp_indexSignature_def
      ReflectionOp_objectLiteral_def ReflectionOp_frame_def ReflectionOp_date_def
      ReflectionOp_int8Array_def ReflectionOp_uint8ClampedArray_def ReflectionOp_uint8Array_def
      ReflectionOp_int16Array_def ReflectionOp_uint16Array_def ReflectionOp_int32Array_def
      ReflectionOp_uint32Array_def ReflectionOp_float32Array_def ReflectionOp_float64Array_def
      ReflectionOp_bigInt64Array_def ReflectionOp_arrayBuffer_def ReflectionOp_promise_def
      ReflectionOp_literal_def ReflectionOp_propertySignature_def ReflectionOp_methodSignature_def
      ReflectionOp_enum_def)

lemma wellAddressed_mono: "wellAddressed xs n \<Longrightarrow> n \<le> m \<Longrightarrow> wellAddressed xs m"
  by (induction xs n rule: wellAddressed.induct)
    (auto split: list.splits OpValue.splits if_splits)

lemma wellAddressed_append:
  "wellAddressed xs n \<Longrightarrow> wellAddressed (xs @ ys) n = wellAddressed ys n"
proof (induction xs n rule: wellAddressed.induct)
  case (1 n)
  show ?case by simp
next
  case (2 op rest n)
  show ?case
  proof (cases "op \<in> set addressedOps")
    case True
    with "2.prems" obtain a rest' where rest: "rest = NumberValue a # rest'" and a: "a < n"
      and w: "wellAddressed rest' n"
      by (auto split: list.splits OpValue.splits)
    from "2.IH"(1) [OF True rest refl w] show ?thesis using True rest a by simp
  next
    case False
    with "2.prems" have "wellAddressed rest n" by simp
    from "2.IH"(2) [OF False this] False show ?thesis by simp
  qed
qed

lemma indexOf_Some: "indexOf stk e = Some i \<Longrightarrow> i < length stk \<and> strictEquals (stk ! i) e"
  by (induction stk arbitrary: i) (auto split: if_splits)

lemma indexOf_None: "indexOf stk e = None \<Longrightarrow> x \<in> set stk \<Longrightarrow> \<not> strictEquals x e"
  by (induction stk) (auto split: if_splits)

lemma findOrAddStackEntry_index:
  "findOrAddStackEntry stk e = (stk', i) \<Longrightarrow> i < length stk' \<and> length stk \<le> length stk'"
  by (auto simp: findOrAddStackEntry_def split: option.splits dest: indexOf_Some)

lemma ensureImportIsEmitted_fields [simp]:
  "ops (ensureImportIsEmitted r st) = ops st"
  "stack (ensureImportIsEmitted r st) = stack st"
  "created (ensureImportIsEmitted r st) = created st"
proof -
  have "ensureImportIsEmitted r st = st \<or>
        (\<exists>k. ensureImportIsEmitted r st = st\<lparr>synthesized := synthesized st @ [k]\<rparr>)"
    unfolding ensureImportIsEmitted_def
    by (cases "importSpecifier r") (auto split: Node.split)
  then show "ops (ensureImportIsEmitted r st) = ops st"
    "stack (ensureImportIsEmitted r st) = stack st"
    "created (ensureImportIsEmitted r st) = created st"
    by auto
qed

lemma emits_wellAddressed:
  "emits st st' \<Longrightarrow> wellAddressed (ops st) (length (stack st)) \<Longrightarrow>
     wellAddressed (ops st') (length (stack st')) \<and> length (stack st) \<le> length (stack st')"
proof (induction rule: emits.induct)
  case (emits_refl st)
  then show ?case by simp
next
  case (emits_op st st' op)
  then show ?case
    by (simp add: pushOps_def wellAddressed_append plain_not_addressed)
next
  case (emits_entry st st' op entry)
  obtain stk i where f: "findOrAddStackEntry (stack st') entry = (stk, i)"
    by (cases "findOrAddStackEntry (stack st') entry")
  from findOrAddStackEntry_index [OF f] have i: "i < length stk" "length (stack st') \<le> length stk"
    by auto
  from emits_entry have w: "wellAddressed (ops st') (length (stack st'))"
    and l: "length (stack st) \<le> length (stack st')" by auto
  have "wellAddressed (ops st') (length stk)"
    using w i(2) by (rule wellAddressed_mono)
  then have "wellAddressed (ops st' @ [op, NumberValue i]) (length stk)"
    using i(1) emits_entry.hyps(2) by (simp add: wellAddressed_append)
  with f i l show ?case
    by (simp add: pushOpWithEntry_def)
next
  case (emits_enum st st' op n arrow st'')
  obtain stk i where f: "findOrAddStackEntry (stack st'') arrow = (stk, i)"
    by (cases "findOrAddStackEntry (stack st'') arrow")
  from emits_enum have s: "ops st'' = ops st'" "stack st'' = stack st'"
    by (auto simp: createArrowFunction_def)
  from findOrAddStackEntry_index [OF f] s have i: "i < length stk" "length (stack st') \<le> length stk"
    by auto
  from emits_enum have w: "wellAddressed (ops st') (length (stack st'))"
    and l: "length (stack st) \<le> length (stack st')" by auto
  have "wellAddressed (ops st') (length stk)"
    using w i(2) by (rule wellAddressed_mono)
  then have "wellAddressed (ops st' @ [op, NumberValue i]) (length stk)"
    using i(1) emits_enum.hyps(2) by (simp add: wellAddressed_append)
  with f i l s show ?case
    by (simp add: pushOpWithEntry_def)
next
  case (emits_class st st' n arrow st'')
  from emits_class have s: "ops st'' = ops st'" "stack st'' = stack st'"
    by (auto simp: createArrowFunction_def)
  from emits_class have w: "wellAddressed (ops st') (length (stack st'))"
    and l: "length (stack st) \<le> length (stack st')" by auto
  have "wellAddressed (ops st') (length (stack st' @ [arrow]))"
    using w by (rule wellAddressed_mono) simp
  with s l show ?case by simp
next
  case (emits_import st st' r)
  then show ?case by simp
next
  case (emits_inherited st st' f)
  then show ?case
    by (simp add: pushOps_def wellAddressed_append addressedOps_def
        ReflectionOp_literal_def ReflectionOp_propertySignature_def
        ReflectionOp_methodSignature_def ReflectionOp_enum_def)
qed

lemma strictEquals_sym: "strictEquals a b \<Longrightarrow> strictEquals b a"
  by (cases a; cases b) (auto simp: strictEquals_def)

lemma strictlyDistinct_snoc:
  assumes "strictlyDistinct stk" and "\<And>x. x \<in> set stk \<Longrightarrow> \<not> strictEquals x e"
  shows "strictlyDistinct (stk @ [e])"
  unfolding strictlyDistinct_def
proof (intro allI impI)
  fix i j
  assume i: "i < length (stk @ [e])" and j: "j < length (stk @ [e])"
    and eq: "strictEquals ((stk @ [e]) ! i) ((stk @ [e]) ! j)"
  show "i = j"
  proof (cases "i < length stk")
    case True
    note ii = True
    show ?thesis
    proof (cases "j < length stk")
      case True
      with ii eq assms(1) show ?thesis
        by (auto simp: strictlyDistinct_def nth_append)
    next
      case False
      with j have "j = length stk" by simp
      with ii eq assms(2) [of "stk ! i"] show ?thesis
        by (auto simp: nth_append)
    qed
  next
    case False
    with i have il: "i = length stk" by simp
    show ?thesis
    proof (cases "j < length stk")
      case True
      with il eq assms(2) [of "stk ! j"] show ?thesis
        by (auto simp: nth_append dest: strictEquals_sym)
    next
      case False
      with j il show ?thesis by simp
    qed
  qed
qed

lemma findOrAddStackEntry_distinct:
  assumes "findOrAddStackEntry stk e = (stk', i)" and "strictlyDistinct stk"
  shows "strictlyDistinct stk'"
proof (cases "indexOf stk e")
  case None
  with assms(1) have "stk' = stk @ [e]" by (simp add: findOrAddStackEntry_def)
  moreover have "strictlyDistinct (stk @ [e])"
    using assms(2) indexOf_None [OF None] by (rule strictlyDistinct_snoc)
  ultimately show ?thesis by simp
next
  case (Some k)
  with assms show ?thesis by (simp add: findOrAddStackEntry_def)
qed

lemma findOrAddStackEntry_set:
  "findOrAddStackEntry stk e = (stk', i) \<Longrightarrow> set stk' \<subseteq> insert e (set stk)"
  by (auto simp: findOrAddStackEntry_def split: option.splits)

lemma emits_distinct:
  "emits st st' \<Longrightarrow> strictlyDistinct (stack st) \<and> arrowsBelow (created st) (stack st) \<Longrightarrow>
     strictlyDistinct (stack st') \<and> arrowsBelow (created st') (stack st')"
proof (induction rule: emits.induct)
  case (emits_refl st)
  then show ?case by simp
next
  case (emits_op st st' op)
  then show ?case by (simp add: pushOps_def)
next
  case (emits_entry st st' op entry)
  obtain stk i where f: "findOrAddStackEntry (stack st') entry = (stk, i)"
    by (cases "findOrAddStackEntry (stack st') entry")
  from emits_entry have inv: "strictlyDistinct (stack st')" "arrowsBelow (created st') (stack st')"
    by auto
  have "arrowsBelow (created st') stk"
    using findOrAddStackEntry_set [OF f] inv(2) emits_entry.hyps(3)
    unfolding arrowsBelow_def by blast
  with findOrAddStackEntry_distinct [OF f inv(1)] f show ?case
    by (simp add: pushOpWithEntry_def)
next
  case (emits_enum st st' op n arrow st'')
  obtain stk i where f: "findOrAddStackEntry (stack st'') arrow = (stk, i)"
    by (cases "findOrAddStackEntry (stack st'') arrow")
  from emits_enum have inv: "strictlyDistinct (stack st')" "arrowsBelow (created st') (stack st')"
    by auto
  from emits_enum.hyps(3) have s: "stack st'' = stack st'" "created st'' = Suc (created st')"
    "arrow = ArrowEntry (created st') (entityNameText n)"
    by (auto simp: createArrowFunction_def)
  have "arrowsBelow (created st'') stk"
    using findOrAddStackEntry_set [OF f] inv(2) s
    by (fastforce simp: arrowsBelow_def less_Suc_eq)
  with findOrAddStackEntry_distinct [OF f] inv(1) s f show ?case
    by (simp add: pushOpWithEntry_def)
next
  case (emits_class st st' n arrow st'')
  from emits_class have inv: "strictlyDistinct (stack st')" "arrowsBelow (created st') (stack st')"
    by auto
  from emits_class.hyps(2) have s: "stack st'' = stack st'" "created st'' = Suc (created st')"
    "arrow = ArrowEntry (created st') (entityNameText n)"
    by (auto simp: createArrowFunction_def)
  have "\<And>x. x \<in> set (stack st') \<Longrightarrow> \<not> strictEquals x arrow"
  proof
    fix x
    assume x: "x \<in> set (stack st')" and e: "strictEquals x arrow"
    from e s(3) obtain t where "x = ArrowEntry (created st') t"
      by (cases x) (auto simp: strictEquals_def)
    with x inv(2) show False by (auto simp: arrowsBelow_def)
  qed
  then have "strictlyDistinct (stack st' @ [arrow])"
    using inv(1) by (rule strictlyDistinct_snoc [rotated])
  moreover have "arrowsBelow (created st'') (stack st' @ [arrow])"
    using inv(2) s by (fastforce simp: arrowsBelow_def less_Suc_eq)
  ultimately show ?case using s by simp
next
  case (emits_import st st' r)
  then show ?case by simp
next
  case (emits_inherited st st' f)
  then show ?case by (simp add: pushOps_def)
qed

lemmas eval_defs = newPackStruct_def pushOps_def pushOpWithEntry_def findOrAddStackEntry_def
  strictEquals_def getNameAsString_def memberName_def plainTransformer_def Let_def
  pushModifiers_def hasModifier_def

text \<open>
  C6. In the ops and the stack that an extraction into a new pack structure returns, read
  as instructions from the left, each \<^verbatim>\<open>literal\<close>, \<^verbatim>\<open>propertySignature\<close>, \<^verbatim>\<open>methodSignature\<close>
  or \<^verbatim>\<open>enum\<close> opcode is followed at once by a number below the length of the stack.
\<close>

theorem extracted_addresses_valid:
  "extractPackStructOfType depth tr node newPackStruct = Inr st \<Longrightarrow>
     wellAddressed (ops st) (length (stack st))"
proof -
  assume r: "extractPackStructOfType depth tr node newPackStruct = Inr st"
  then have "emits newPackStruct st" using extract_emits(1) by blast
  moreover have "wellAddressed (ops newPackStruct) (length (stack newPackStruct))"
    by (simp add: newPackStruct_def)
  ultimately show ?thesis using emits_wellAddressed by blast
qed

lemma example_nested_literal:
  "extractPackStructOfType (Suc (Suc (Suc (Suc (Suc (Suc (Suc 0))))))) (plainTransformer None)
     (TypeLiteral
        [PropertySignature (IdentifierName ''a'')
           (Some (TypeLiteral
              [PropertySignature (IdentifierName ''a'') (Some (KeywordNode StringKeyword)),
               PropertySignature (IdentifierName ''b'') (Some (KeywordNode NumberKeyword))]))])
     newPackStruct =
   Inr \<lparr>ops = [ReflectionOp_string, ReflectionOp_propertySignature, NumberValue 0,
                ReflectionOp_number, ReflectionOp_propertySignature, NumberValue 1,
                ReflectionOp_objectLiteral, ReflectionOp_propertySignature, NumberValue 0,
                ReflectionOp_objectLiteral],
         stack = [StringEntry ''a'', StringEntry ''b''], created = 0, synthesized = []\<rparr>"
  by (simp add: eval_defs)

theorem extracted_addresses_valid_witness:
  "wellAddressed
     (ops \<lparr>ops = [ReflectionOp_string, ReflectionOp_propertySignature, NumberValue 0,
                ReflectionOp_number, ReflectionOp_propertySignature, NumberValue 1,
                ReflectionOp_objectLiteral, ReflectionOp_propertySignature, NumberValue 0,
                ReflectionOp_objectLiteral],
         stack = [StringEntry ''a'', StringEntry ''b''], created = 0, synthesized = []\<rparr>)
     (length (stack \<lparr>ops = [ReflectionOp_string, ReflectionOp_propertySignature, NumberValue 0,
                ReflectionOp_number, ReflectionOp_propertySignature, NumberValue 1,
                ReflectionOp_objectLiteral, ReflectionOp_propertySignature, NumberValue 0,
                ReflectionOp_objectLiteral],
         stack = [StringEntry ''a'', StringEntry ''b''], created = 0, synthesized = []\<rparr>))"
  by (rule extracted_addresses_valid [OF example_nested_literal])

lemma example_equal_literals:
  "extractPackStructOfType (Suc (Suc (Suc 0))) (plainTransformer None)
     (UnionType [LiteralType (LiteralExpression 1 ''x''), LiteralType (LiteralExpression 2 ''x'')])
     newPackStruct =
   Inr \<lparr>ops = [ReflectionOp_literal, NumberValue 0, ReflectionOp_literal, NumberValue 1, ReflectionOp_union],
         stack = [NodeEntry 1 ''x'', NodeEntry 2 ''x''], created = 0, synthesized = []\<rparr>"
  by (simp add: eval_defs)

text \<open>
  Two literal type nodes with the same text are two objects, and \<^verbatim>\<open>indexOf\<close> compares
  objects by identity: in \<^verbatim>\<open>'x' | 'x'\<close> each literal gets an index of its own.
\<close>

theorem equal_literals_two_indices:
  "(case extractPackStructOfType (Suc (Suc (Suc 0))) (plainTransformer None)
           (UnionType [LiteralType (LiteralExpression 1 ''x''), LiteralType (LiteralExpression 2 ''x'')])
           newPackStruct of
      Inl e \<Rightarrow> False
    | Inr st \<Rightarrow> length (stack st) = 2 \<and> textuallyEqual (stack st ! 0) (stack st ! 1))"
  unfolding example_equal_literals by (simp add: textuallyEqual_def)

text \<open>
  C7, as the code has it. In the stack that an extraction returns no two different indices
  hold entries that are equal under \<^verbatim>\<open>===\<close>: equal values for strings, numbers and
  booleans, the same object for nodes. In particular a string, such as the name of a
  property, has one index.
\<close>

theorem stack_entries_strictly_distinct:
  assumes "extractPackStructOfType depth tr node newPackStruct = Inr st"
    and "i < length (stack st)" and "j < length (stack st)"
  shows "(strictEquals (stack st ! i) (stack st ! j) \<longrightarrow> i = j) \<and>
         (\<forall>s. stack st ! i = StringEntry s \<and> stack st ! j = StringEntry s \<longrightarrow> i = j)"
proof -
  have "emits newPackStruct st" using assms(1) extract_emits(1) by blast
  moreover have "strictlyDistinct (stack newPackStruct) \<and>
      arrowsBelow (created newPackStruct) (stack newPackStruct)"
    by (simp add: newPackStruct_def strictlyDistinct_def arrowsBelow_def)
  ultimately have d: "strictlyDistinct (stack st)" using emits_distinct by blast
  then have 1: "strictEquals (stack st ! i) (stack st ! j) \<longrightarrow> i = j"
    using assms(2,3) by (auto simp: strictlyDistinct_def)
  moreover have "\<forall>s. stack st ! i = StringEntry s \<and> stack st ! j = StringEntry s \<longrightarrow> i = j"
    using 1 by (auto simp: strictEquals_def)
  ultimately show ?thesis by blast
qed

theorem stack_entries_strictly_distinct_witness:
  "(strictEquals (stack \<lparr>ops = [ReflectionOp_string, ReflectionOp_propertySignature, NumberValue 0,
                ReflectionOp_number, ReflectionOp_propertySignature, NumberValue 1,
                ReflectionOp_objectLiteral, ReflectionOp_propertySignature, NumberValue 0,
                ReflectionOp_objectLiteral],
         stack = [StringEntry ''a'', StringEntry ''b''], created = 0, synthesized = []\<rparr> ! 0)
      (stack \<lparr>ops = [ReflectionOp_string, ReflectionOp_propertySignature, NumberValue 0,
                ReflectionOp_number, ReflectionOp_propertySignature, NumberValue 1,
                ReflectionOp_objectLiteral, ReflectionOp_propertySignature, NumberValue 0,
                ReflectionOp_objectLiteral],
         stack = [StringEntry ''a'', StringEntry ''b''], created = 0, synthesized = []\<rparr> ! 1)
      = False) \<and>
   length (stack \<lparr>ops = [ReflectionOp_string, ReflectionOp_propertySignature, NumberValue 0,
                ReflectionOp_number, ReflectionOp_propertySignature, NumberValue 1,
                ReflectionOp_objectLiteral, ReflectionOp_propertySignature, NumberValue 0,
                ReflectionOp_objectLiteral],
         stack = [StringEntry ''a'', StringEntry ''b''], created = 0, synthesized = []\<rparr>) = 2"
  using stack_entries_strictly_distinct [OF example_nested_literal, of 0 1]
  by (simp add: strictEquals_def)

lemma extractPackStructOfTypes_recurseEach:
  "extractPackStructOfTypes depth tr ts st = recurseEach (extractPackStructOfType depth tr) ts st"
  by (induction ts arbitrary: st) (auto split: sum.splits)

text \<open>
  C3. A union type with no subtype emits nothing; with one subtype the extraction is that
  of the subtype; with two or more, \<^verbatim>\<open>frame\<close> is pushed exactly when the ops are not empty,
  then the subtypes are extracted from left to right, then \<^verbatim>\<open>union\<close> is pushed.
\<close>

theorem union_type_extraction:
  "extractPackStructOfType (Suc depth) tr (UnionType types) st =
     (if length types = 0 then Inr st
      else if length types = 1 then extractPackStructOfType depth tr (hd types) st
      else
        (case recurseEach (extractPackStructOfType depth tr) types
                (if ops st \<noteq> [] then st\<lparr>ops := ops st @ [ReflectionOp_frame]\<rparr> else st) of
           Inl e \<Rightarrow> Inl e
         | Inr st' \<Rightarrow> Inr (st'\<lparr>ops := ops st' @ [ReflectionOp_union]\<rparr>)))"
proof (cases types)
  case Nil
  then show ?thesis by simp
next
  case (Cons t ts)
  show ?thesis
  proof (cases ts)
    case Nil
    with Cons show ?thesis by simp
  next
    case (Cons t' ts')
    with \<open>types = t # ts\<close> show ?thesis
      by (simp add: pushOps_def extractPackStructOfTypes_recurseEach
          del: extractPackStructOfTypes.simps split: sum.splits)
  qed
qed

text \<open>
  Where the lookup \<^verbatim>\<open>this.knownClasses[name]\<close> finds nothing, the name is not \<^verbatim>\<open>Promise\<close>
  and \<^verbatim>\<open>resolveDeclaration\<close> returns nothing, a type reference pushes the one opcode \<^verbatim>\<open>any\<close>;
  so does a node of a shape that no branch of the extractor handles.
\<close>

lemma unresolved_reference_emits_any:
  "knownClasses x = None \<and> x \<noteq> ''Promise'' \<and>
     resolveDeclaration depth tr (Identifier i x) = Inr None \<Longrightarrow>
   extractPackStructOfType (Suc (Suc depth)) tr (TypeReference (Identifier i x) typeArguments) st =
     Inr (st\<lparr>ops := ops st @ [ReflectionOp_any]\<rparr>)"
  by (auto simp: pushOps_def)

lemma unhandled_shape_emits_any:
  "unhandledShape node \<Longrightarrow>
   extractPackStructOfType (Suc depth) tr node st = Inr (st\<lparr>ops := ops st @ [ReflectionOp_any]\<rparr>)"
  by (cases node rule: unhandledShape.cases) (auto simp: pushOps_def)

text \<open>
  C9. The name \<^verbatim>\<open>toString\<close> is no key of the table \<^verbatim>\<open>knownClasses\<close> and, with no symbol
  at the identifier, \<^verbatim>\<open>resolveDeclaration\<close> returns nothing for it. The extractor does not
  push the opcode \<^verbatim>\<open>any\<close> for a reference to it: the lookup \<^verbatim>\<open>this.knownClasses[name]\<close> finds
  the function that the object inherits from \<^verbatim>\<open>Object.prototype\<close>, the extractor pushes that
  function as if it were an opcode, and \<^verbatim>\<open>getTypeOfType\<close>, which packs the ops, raises
  \<^verbatim>\<open>SyntaxError\<close>.
\<close>

theorem inherited_name_not_any:
  "knownClasses ''toString'' = Some (FunctionValue ''toString'') \<and>
   resolveDeclaration (Suc 0) (plainTransformer (Some ''default''))
     (Identifier 1 ''toString'') = Inr None \<and>
   extractPackStructOfType (Suc (Suc 0)) (plainTransformer (Some ''default''))
     (TypeReference (Identifier 1 ''toString'') None) newPackStruct =
     Inr (newPackStruct\<lparr>ops := [FunctionValue ''toString'']\<rparr>) \<and>
   FunctionValue ''toString'' \<noteq> ReflectionOp_any \<and>
   getTypeOfType (Suc (Suc 0)) (plainTransformer (Some ''default''))
     (TypeReference (Identifier 1 ''toString'') None) [] = Inl SyntaxError"
proof -
  have known: "knownClasses ''toString'' = Some (FunctionValue ''toString'')"
    by (simp add: knownClasses_def objectPrototypeKeys_def)
  have unresolved: "resolveDeclaration (Suc 0) (plainTransformer (Some ''default''))
     (Identifier 1 ''toString'') = Inr None"
    by (simp add: resolveDeclaration_def plainTransformer_def)
  have extracted: "extractPackStructOfType (Suc (Suc 0)) (plainTransformer (Some ''default''))
     (TypeReference (Identifier 1 ''toString'') None) newPackStruct =
     Inr (newPackStruct\<lparr>ops := [FunctionValue ''toString'']\<rparr>)"
    by (simp add: known newPackStruct_def pushOps_def)
  have packed: "getTypeOfType (Suc (Suc 0)) (plainTransformer (Some ''default''))
     (TypeReference (Identifier 1 ''toString'') None) [] = Inl SyntaxError"
    unfolding getTypeOfType_def extracted
    by (simp add: findReflectionConfig_def packOpsAndStack_def pack_def newPackStruct_def
        plainTransformer_def)
  from known unresolved extracted packed show ?thesis
    by (simp add: ReflectionOp_any_def)
qed

section \<open>Properties of the decorator\<close>

lemma pack_string:
  "pack (OfStruct \<lparr>ops = [ReflectionOp_string], stack = []\<rparr>) = Inr (PackedString ''3'')"
  by (simp add: pack_def ReflectionOp_string_def digit36_def)

lemma title_extraction:
  "extractPackStructOfType (Suc (Suc depth)) tr titleMember st =
     Inr (st\<lparr>ops := ops st @ [ReflectionOp_string]\<rparr>)"
  by (simp add: titleMember_def pushOps_def pushModifiers_def hasModifier_def)

lemma title_getTypeOfType:
  "findReflectionConfig tr titleMember parents \<noteq> ''never'' \<Longrightarrow>
     getTypeOfType (Suc (Suc depth)) tr titleMember parents = Inr (Some (StringLiteral ''3''))"
  by (simp add: getTypeOfType_def title_extraction packOpsAndStack_def newPackStruct_def
      pack_string valueToExpression_def del: extractPackStructOfType.simps)

text \<open>
  C2, as the code has it. The extraction of the member \<^verbatim>\<open>title: string\<close> pushes the one
  opcode \<^verbatim>\<open>string\<close>; and where the mode of the class and of the member is not \<^verbatim>\<open>never\<close>,
  \<^verbatim>\<open>decorateClass\<close> appends the static member \<^verbatim>\<open>__type\<close> with the initializer
  \<^verbatim>\<open>{ title: '3' }\<close>, the packed form of that one opcode.
\<close>

theorem title_member_extraction:
  "extractPackStructOfType (Suc (Suc depth)) tr titleMember st =
     Inr (st\<lparr>ops := ops st @ [ReflectionOp_string]\<rparr>) \<and>
   (findReflectionConfig tr (ClassDeclaration [titleMember]) parents \<noteq> ''never'' \<and>
    findReflectionConfig tr titleMember (ClassDeclaration [titleMember] # parents) \<noteq> ''never'' \<longrightarrow>
      decorateClass (Suc (Suc depth)) tr (ClassDeclaration [titleMember]) parents =
        Inr (ClassDeclaration
               [titleMember,
                typeMember (ObjectLiteralExpression [(IdentifierName ''title'', StringLiteral ''3'')])]))"
proof (intro conjI impI)
  show "extractPackStructOfType (Suc (Suc depth)) tr titleMember st =
     Inr (st\<lparr>ops := ops st @ [ReflectionOp_string]\<rparr>)"
    by (rule title_extraction)
next
  assume a: "findReflectionConfig tr (ClassDeclaration [titleMember]) parents \<noteq> ''never'' \<and>
    findReflectionConfig tr titleMember (ClassDeclaration [titleMember] # parents) \<noteq> ''never''"
  have n: "elementName titleMember = NameNode (IdentifierName ''title'')"
    by (simp add: elementName_def memberName_def titleMember_def)
  from a have g: "getTypeOfType (Suc (Suc depth)) tr titleMember (ClassDeclaration [titleMember] # parents)
      = Inr (Some (StringLiteral ''3''))"
    by (simp add: title_getTypeOfType)
  from a n g show "decorateClass (Suc (Suc depth)) tr (ClassDeclaration [titleMember]) parents =
        Inr (ClassDeclaration
               [titleMember,
                typeMember (ObjectLiteralExpression [(IdentifierName ''title'', StringLiteral ''3'')])])"
    by (simp add: decorateClass_def typeMember_def)
qed

theorem title_member_extraction_witness:
  "decorateClass (Suc (Suc 0)) (plainTransformer (Some ''default'')) (ClassDeclaration [titleMember]) [] =
     Inr (ClassDeclaration
            [titleMember,
             typeMember (ObjectLiteralExpression [(IdentifierName ''title'', StringLiteral ''3'')])])"
  using title_member_extraction [of 0 "plainTransformer (Some ''default'')" newPackStruct "[]"]
  by simp

text \<open>The ops of the member \<^verbatim>\<open>title: string\<close> are \<^verbatim>\<open>[string]\<close>, not \<^verbatim>\<open>[string, property]\<close>.\<close>

theorem title_member_ops_without_property:
  "(case extractPackStructOfType (Suc (Suc 0)) (plainTransformer (Some ''default'')) titleMember
           newPackStruct of
      Inl e \<Rightarrow> False
    | Inr st \<Rightarrow> ops st = [ReflectionOp_string] \<and>
               ops st \<noteq> [ReflectionOp_string, ReflectionOp_property])"
  unfolding title_extraction by (simp add: newPackStruct_def)

lemma decorateMembers_typed:
  "memberName m = Some (IdentifierName ''__type'') \<Longrightarrow>
     decorateMembers depth tr chain (pre @ m # post) elements = Inr r \<Longrightarrow> r = None"
proof (induction pre arbitrary: elements)
  case Nil
  then show ?case by (simp add: elementName_def)
next
  case (Cons p pre)
  then show ?case
    by (auto split: ElementName.splits if_splits sum.splits option.splits)
qed

lemma decorateMembers_returns_early:
  "memberName m = Some (IdentifierName ''__type'') \<Longrightarrow>
     \<forall>p \<in> set pre. \<exists>r. getTypeOfType depth tr p chain = Inr r \<Longrightarrow>
     decorateMembers depth tr chain (pre @ m # post) elements = Inr None"
proof (induction pre arbitrary: elements)
  case Nil
  then show ?case by (simp add: elementName_def)
next
  case (Cons p pre)
  then show ?case
    by (auto split: ElementName.splits if_splits sum.splits option.splits)
qed

text \<open>
  C8, as the code has it. For a class with a member whose name is the identifier
  \<^verbatim>\<open>__type\<close>, \<^verbatim>\<open>decorateClass\<close> never returns a changed class; and it returns the class
  unchanged when the type of each member before that one is returned without an error.
\<close>

theorem redecoration_unchanged:
  assumes "members = pre @ m # post" and "memberName m = Some (IdentifierName ''__type'')"
  shows "(\<forall>c. decorateClass depth tr (ClassDeclaration members) parents = Inr c \<longrightarrow>
            c = ClassDeclaration members) \<and>
         ((\<forall>p \<in> set pre. \<exists>r. getTypeOfType depth tr p (ClassDeclaration members # parents) = Inr r) \<longrightarrow>
            decorateClass depth tr (ClassDeclaration members) parents = Inr (ClassDeclaration members))"
proof (intro conjI allI impI)
  fix c
  assume "decorateClass depth tr (ClassDeclaration members) parents = Inr c"
  then show "c = ClassDeclaration members"
    using decorateMembers_typed [OF assms(2), of depth tr "ClassDeclaration members # parents" pre post "[]"]
      assms(1)
    by (auto simp: decorateClass_def split: if_splits sum.splits option.splits)
next
  assume "\<forall>p \<in> set pre. \<exists>r. getTypeOfType depth tr p (ClassDeclaration members # parents) = Inr r"
  from decorateMembers_returns_early [OF assms(2) this, of post "[]"] assms(1)
  show "decorateClass depth tr (ClassDeclaration members) parents = Inr (ClassDeclaration members)"
    by (simp add: decorateClass_def)
qed

theorem redecoration_unchanged_witness:
  "decorateClass (Suc (Suc 0)) (plainTransformer (Some ''default''))
     (ClassDeclaration [titleMember, typeMember OtherExpression]) [] =
   Inr (ClassDeclaration [titleMember, typeMember OtherExpression])"
proof -
  have 1: "[titleMember, typeMember OtherExpression] = [titleMember] @ typeMember OtherExpression # []"
    by simp
  have 2: "memberName (typeMember OtherExpression) = Some (IdentifierName ''__type'')"
    by (simp add: memberName_def typeMember_def)
  have 3: "\<forall>p \<in> set [titleMember]. \<exists>r. getTypeOfType (Suc (Suc 0)) (plainTransformer (Some ''default'')) p
      (ClassDeclaration [titleMember, typeMember OtherExpression] # []) = Inr r"
    by (simp add: title_getTypeOfType)
  from redecoration_unchanged [OF 1 2, of "Suc (Suc 0)" "plainTransformer (Some ''default'')" "[]"] 3
  show ?thesis by blast
qed

text \<open>
  A member named by the string literal \<^verbatim>\<open>'__type'\<close> is not an identifier: the class
  \<^verbatim>\<open>class M { static '__type' = e; title: string }\<close> gets a second member \<^verbatim>\<open>__type\<close>.
\<close>

theorem string_named_type_member_redecorated:
  "decorateClass (Suc (Suc 0)) (plainTransformer (Some ''default''))
     (ClassDeclaration
        [PropertyDeclaration [StaticKeyword] (StringLiteralName ''__type'') False None (Some OtherExpression),
         titleMember]) [] =
   Inr (ClassDeclaration
          [PropertyDeclaration [StaticKeyword] (StringLiteralName ''__type'') False None (Some OtherExpression),
           titleMember,
           typeMember (ObjectLiteralExpression
             [(StringLiteralName ''__type'', StringLiteral ''1''),
              (IdentifierName ''title'', StringLiteral ''3'')])])"
proof -
  have p: "pack (OfStruct \<lparr>ops = [ReflectionOp_any], stack = []\<rparr>) = Inr (PackedString ''1'')"
    by (simp add: pack_def ReflectionOp_any_def digit36_def)
  have g: "getTypeOfType (Suc (Suc 0)) (plainTransformer (Some ''default''))
      (PropertyDeclaration [StaticKeyword] (StringLiteralName ''__type'') False None (Some OtherExpression))
      parents = Inr (Some (StringLiteral ''1''))" for parents
    by (simp add: getTypeOfType_def packOpsAndStack_def newPackStruct_def pushOps_def p
        valueToExpression_def)
  have n1: "elementName
      (PropertyDeclaration [StaticKeyword] (StringLiteralName ''__type'') False None (Some OtherExpression))
      = NameNode (StringLiteralName ''__type'')"
    by (simp add: elementName_def memberName_def)
  have n2: "elementName titleMember = NameNode (IdentifierName ''title'')"
    by (simp add: elementName_def memberName_def titleMember_def)
  show ?thesis
    by (simp add: decorateClass_def n1 n2 g title_getTypeOfType typeMember_def)
qed

end
